theory Spec2Isabelle
  imports Main
begin

section \<open>Python values\<close>

text \<open>
  The manager and the workers exchange JSON documents and never check their shape, so
  the values a request, a plan or a worker reply can hold are modelled as the values
  \<^verbatim>\<open>json.loads\<close> produces. A float is kept as mantissa and exponent; the code only ever
  tests it for truth.
\<close>

datatype json =
    JNull
  | JBool bool
  | JInt int
  | JFloat int int
  | JString string
  | JArray "json list"
  | JObject "(string \<times> json) list"

text \<open>
  An exception is what \<^verbatim>\<open>str(e)\<close> prints, except \<^verbatim>\<open>asyncio.TimeoutError\<close>, which
  \<^verbatim>\<open>_call_worker\<close> catches on its own.
\<close>

datatype exn = TimeoutError | PyError string

fun str_exn :: "exn \<Rightarrow> string" where
  "str_exn TimeoutError = []"
| "str_exn (PyError m) = m"

fun py_type_name :: "json \<Rightarrow> string" where
  "py_type_name JNull = ''NoneType''"
| "py_type_name (JBool b) = ''bool''"
| "py_type_name (JInt i) = ''int''"
| "py_type_name (JFloat m e) = ''float''"
| "py_type_name (JString s) = ''str''"
| "py_type_name (JArray xs) = ''list''"
| "py_type_name (JObject kvs) = ''dict''"

definition quoted :: "string \<Rightarrow> string" where
  "quoted s = [CHR 0x27] @ s @ [CHR 0x27]"

text \<open>Truth of a value, as \<^verbatim>\<open>if x:\<close> and \<^verbatim>\<open>not x\<close> read it.\<close>

fun py_truthy :: "json \<Rightarrow> bool" where
  "py_truthy JNull = False"
| "py_truthy (JBool b) = b"
| "py_truthy (JInt i) = (i \<noteq> 0)"
| "py_truthy (JFloat m e) = (m \<noteq> 0)"
| "py_truthy (JString s) = (s \<noteq> [])"
| "py_truthy (JArray xs) = (xs \<noteq> [])"
| "py_truthy (JObject kvs) = (kvs \<noteq> [])"

fun isinstance_dict :: "json \<Rightarrow> bool" where
  "isinstance_dict (JObject kvs) = True"
| "isinstance_dict v = False"

text \<open>\<^verbatim>\<open>x.get(k, d)\<close>: only a dict has the method.\<close>

fun dict_get :: "json \<Rightarrow> string \<Rightarrow> json \<Rightarrow> exn + json" where
  "dict_get (JObject kvs) k d = Inr (case map_of kvs k of Some v \<Rightarrow> v | None \<Rightarrow> d)"
| "dict_get v k d =
     Inl (PyError (quoted (py_type_name v) @ '' object has no attribute '' @ quoted ''get''))"

text \<open>\<^verbatim>\<open>for a in x\<close>: a list gives its items, a string its characters, a dict its keys.\<close>

fun py_iter :: "json \<Rightarrow> exn + json list" where
  "py_iter (JArray xs) = Inr xs"
| "py_iter (JString s) = Inr (map (\<lambda>c. JString [c]) s)"
| "py_iter (JObject kvs) = Inr (map (\<lambda>kv. JString (fst kv)) kvs)"
| "py_iter v = Inl (PyError (quoted (py_type_name v) @ '' object is not iterable''))"

text \<open>\<^verbatim>\<open>x[0]\<close> on a value that passed \<^verbatim>\<open>if x:\<close>.\<close>

fun py_first :: "json \<Rightarrow> exn + json" where
  "py_first (JArray []) = Inl (PyError ''list index out of range'')"
| "py_first (JArray (x # xs)) = Inr x"
| "py_first (JString []) = Inl (PyError ''string index out of range'')"
| "py_first (JString (c # s)) = Inr (JString [c])"
| "py_first (JObject kvs) = Inl (PyError ''0'')"
| "py_first v = Inl (PyError (quoted (py_type_name v) @ '' object is not subscriptable''))"

text \<open>
  \<^verbatim>\<open>x[:100]\<close>, taken for a log line only: what matters is whether it raises. A string
  and a list can be sliced; nothing else can (the text of the exception for a dict is
  the one of Python before 3.12).
\<close>

fun py_slice_check :: "json \<Rightarrow> exn option" where
  "py_slice_check (JString s) = None"
| "py_slice_check (JArray xs) = None"
| "py_slice_check (JObject kvs) = Some (PyError (''unhashable type: '' @ quoted ''slice''))"
| "py_slice_check v = Some (PyError (quoted (py_type_name v) @ '' object is not subscriptable''))"

text \<open>Whether a value can be looked up in a dict: a list or a dict cannot be hashed.\<close>

fun py_hash_check :: "json \<Rightarrow> exn option" where
  "py_hash_check (JArray xs) = Some (PyError (''unhashable type: '' @ quoted ''list''))"
| "py_hash_check (JObject kvs) = Some (PyError (''unhashable type: '' @ quoted ''dict''))"
| "py_hash_check v = None"

section \<open>Strings\<close>

text \<open>
  A Python string is a \<^typ>\<open>string\<close>: ASCII characters as themselves, any other code point
  as its UTF-8 bytes. \<^verbatim>\<open>strip\<close> and \<^verbatim>\<open>upper\<close> are modelled on the ASCII range.
\<close>

definition is_space :: "char \<Rightarrow> bool" where
  "is_space c = (let n = (of_char c :: nat) in (9 \<le> n \<and> n \<le> 13) \<or> (28 \<le> n \<and> n \<le> 32))"

definition lstrip :: "string \<Rightarrow> string" where
  "lstrip s = dropWhile is_space s"

definition rstrip :: "string \<Rightarrow> string" where
  "rstrip s = rev (dropWhile is_space (rev s))"

definition strip :: "string \<Rightarrow> string" where
  "strip s = lstrip (rstrip s)"

definition ascii_upper :: "char \<Rightarrow> char" where
  "ascii_upper c =
     (let n = (of_char c :: nat) in if 97 \<le> n \<and> n \<le> 122 then char_of (n - 32) else c)"

definition upper :: "string \<Rightarrow> string" where
  "upper s = map ascii_upper s"

fun starts_with :: "string \<Rightarrow> string \<Rightarrow> bool" where
  "starts_with [] s = True"
| "starts_with (p # ps) [] = False"
| "starts_with (p # ps) (c # s) = (p = c \<and> starts_with ps s)"

text \<open>\<^verbatim>\<open>sub in s\<close> on strings.\<close>

fun str_contains :: "string \<Rightarrow> string \<Rightarrow> bool" where
  "str_contains sub [] = (sub = [])"
| "str_contains sub (c # s) = (starts_with sub (c # s) \<or> str_contains sub s)"

definition newline :: string where
  "newline = [CHR 0x0A]"

text \<open>Decimal digits of a number, as an f-string prints it.\<close>

fun str_nat :: "nat \<Rightarrow> string" where
  "str_nat n = (if n < 10 then [char_of (48 + n)] else str_nat (n div 10) @ [char_of (48 + n mod 10)])"

declare str_nat.simps [simp del]

section \<open>The world outside the process\<close>

text \<open>
  The language model and the worker endpoints are reached over the network. Each is a
  function of the requests it has received so far and the request at hand; the world
  records the requests made, in the order they were made.
\<close>

record world =
  llm_calls :: "(nat \<times> string) list"
  http_calls :: "(string \<times> json) list"

datatype http_outcome =
    HttpRaises exn
  | HttpResponse nat "exn + json"

record env =
  llm_reply :: "(nat \<times> string) list \<Rightarrow> nat \<Rightarrow> string \<Rightarrow> exn + string"
  http_reply :: "(string \<times> json) list \<Rightarrow> string \<Rightarrow> json \<Rightarrow> http_outcome"
  json_loads :: "string \<Rightarrow> exn + json"
  py_repr :: "json \<Rightarrow> string"
  worker_agent_1_url :: string
  worker_agent_2_url :: string
  completion_order :: "nat list"
  client_error :: "nat \<Rightarrow> exn option"

text \<open>What an f-string puts in for a value: a string as it is, anything else by its repr.\<close>

definition format_value :: "(json \<Rightarrow> string) \<Rightarrow> json \<Rightarrow> string" where
  "format_value repr v = (case v of JString s \<Rightarrow> s | _ \<Rightarrow> repr v)"

text \<open>
  \<^verbatim>\<open>_create_llm(temperature=0.0, max_tokens=n)\<close> builds a client from the configuration
  and calls nothing. \<^verbatim>\<open>ChatOpenAI(**params)\<close> raises when the configuration is not one it
  accepts (no API key, for one): \<open>client_error\<close> of the environment says what it raises, if
  anything. Every caller passes temperature 0.0, so a client is known by its token limit.
\<close>

definition create_llm :: "env \<Rightarrow> nat \<Rightarrow> exn + nat" where
  "create_llm e max_tokens =
     (case client_error e max_tokens of Some err \<Rightarrow> Inl err | None \<Rightarrow> Inr max_tokens)"

text \<open>\<^verbatim>\<open>(await llm.ainvoke([HumanMessage(content=prompt)])).content\<close>\<close>

definition ainvoke :: "env \<Rightarrow> world \<Rightarrow> nat \<Rightarrow> string \<Rightarrow> (exn + string) \<times> world" where
  "ainvoke e w llm prompt =
     (llm_reply e (llm_calls w) llm prompt, w\<lparr>llm_calls := llm_calls w @ [(llm, prompt)]\<rparr>)"

section \<open>The manager\<close>

subsection \<open>Query classification\<close>

datatype QueryComplexity = SIMPLE | COMPLEX

definition classify_prompt :: "env \<Rightarrow> json \<Rightarrow> string" where
  "classify_prompt e query =
     ''Classify this legal query:'' @ newline @ newline @
     ''Query: '' @ format_value (py_repr e) query @ newline @ newline @
     ''Is this SIMPLE (needs one agent) or COMPLEX (needs multiple agents or steps)?'' @
     newline @ newline @
     ''Reply with only: SIMPLE or COMPLEX''"

definition classify_complexity :: "env \<Rightarrow> world \<Rightarrow> json \<Rightarrow> QueryComplexity \<times> world" where
  "classify_complexity e w query =
     (case create_llm e 100 of
        Inl err \<Rightarrow> (SIMPLE, w)
      | Inr llm \<Rightarrow>
          (let prompt = classify_prompt e query;
               (response, w') = ainvoke e w llm prompt
           in case response of
                Inl err \<Rightarrow> (SIMPLE, w')
              | Inr content \<Rightarrow>
                  (let classification = upper (strip content)
                   in if str_contains ''COMPLEX'' classification then (COMPLEX, w')
                      else (SIMPLE, w'))))"

subsection \<open>Execution planning\<close>

definition plan_prompt :: "env \<Rightarrow> json \<Rightarrow> string" where
  "plan_prompt e query =
     ''Plan the execution for this legal query:'' @ newline @ newline @
     ''Query: '' @ format_value (py_repr e) query @ newline @ newline @
     ''Available agents:'' @ newline @
     ''- worker_agent_1: Extract and analyze data (Worker Agent 1)'' @ newline @
     ''- worker_agent_2: Validate data against rules (Worker Agent 2)'' @ newline @ newline @
     ''Decide the execution plan. Return JSON:'' @ newline @
     ''{'' @ newline @
     ''    \"agents\": [\"agent1\", \"agent2\"],'' @ newline @
     ''    \"parallel\": true/false,'' @ newline @
     ''    \"reasoning\": \"why this plan\"'' @ newline @
     ''}'' @ newline @ newline @
     ''If parallel=true, queries run simultaneously. If false, run sequentially.''"

text \<open>
  \<^verbatim>\<open>re.search(r'\{.*\}', content, re.DOTALL)\<close> and \<^verbatim>\<open>match.group()\<close>: the leftmost match
  starts at the first opening brace, and the greedy \<^verbatim>\<open>.*\<close> (which crosses newlines) runs
  to the last closing brace after it. There is no match when no closing brace follows
  the first opening one.
\<close>

definition re_search_braces :: "string \<Rightarrow> string option" where
  "re_search_braces content =
     (let from_open = dropWhile (\<lambda>c. c \<noteq> CHR ''{'') content;
          to_close = dropWhile (\<lambda>c. c \<noteq> CHR ''}'') (rev from_open)
      in if to_close = [] then None else Some (rev to_close))"

definition default_plan :: json where
  "default_plan =
     JObject [(''agents'', JArray [JString ''worker_agent_1'']),
              (''parallel'', JBool False),
              (''reasoning'', JString ''Default to data extraction'')]"

definition planning_error_plan :: json where
  "planning_error_plan =
     JObject [(''agents'', JArray [JString ''worker_agent_1'']),
              (''parallel'', JBool False)]"

definition plan_execution :: "env \<Rightarrow> world \<Rightarrow> json \<Rightarrow> json \<times> world" where
  "plan_execution e w query =
     (case create_llm e 500 of
        Inl err \<Rightarrow> (planning_error_plan, w)
      | Inr llm \<Rightarrow>
          (let prompt = plan_prompt e query;
               (response, w') = ainvoke e w llm prompt
           in case response of
                Inl err \<Rightarrow> (planning_error_plan, w')
              | Inr text \<Rightarrow>
                  (let content = strip text
                   in case re_search_braces content of
                        Some matched \<Rightarrow>
                          (case json_loads e matched of
                             Inr plan \<Rightarrow> (plan, w')
                           | Inl err \<Rightarrow> (planning_error_plan, w'))
                      | None \<Rightarrow> (default_plan, w'))))"

subsection \<open>Worker agent communication\<close>

record worker_result =
  success :: bool
  result :: "json option"
  error :: "string option"
  agent_url :: "string option"

definition call_succeeded :: "string \<Rightarrow> json \<Rightarrow> worker_result" where
  "call_succeeded url body =
     \<lparr>success = True, result = Some body, error = None, agent_url = Some url\<rparr>"

definition call_failed :: "string \<Rightarrow> string \<Rightarrow> worker_result" where
  "call_failed url reason =
     \<lparr>success = False, result = None, error = Some reason, agent_url = Some url\<rparr>"

text \<open>The two handlers of \<^verbatim>\<open>_call_worker\<close>: a timeout first, then any other exception.\<close>

fun call_worker_except :: "string \<Rightarrow> exn \<Rightarrow> worker_result" where
  "call_worker_except url TimeoutError = call_failed url ''Timeout''"
| "call_worker_except url (PyError m) = call_failed url m"

definition task_payload :: "json \<Rightarrow> json" where
  "task_payload query = JObject [(''message'', JObject [(''content'', JObject [(''text'', query)])])]"

definition session_post :: "env \<Rightarrow> world \<Rightarrow> string \<Rightarrow> json \<Rightarrow> http_outcome \<times> world" where
  "session_post e w url body =
     (http_reply e (http_calls w) url body, w\<lparr>http_calls := http_calls w @ [(url, body)]\<rparr>)"

definition call_worker :: "env \<Rightarrow> world \<Rightarrow> string \<Rightarrow> json \<Rightarrow> worker_result \<times> world" where
  "call_worker e w url query =
     (let (outcome, w') = session_post e w (url @ ''/task'') (task_payload query)
      in case outcome of
           HttpResponse status body \<Rightarrow>
             (if status = 200 then
                (case body of
                   Inr res \<Rightarrow> (call_succeeded url res, w')
                 | Inl err \<Rightarrow> (call_worker_except url err, w'))
              else (call_failed url (''HTTP '' @ str_nat status), w'))
         | HttpRaises err \<Rightarrow> (call_worker_except url err, w'))"

subsection \<open>Plan execution\<close>

definition agent_map :: "env \<Rightarrow> (string \<times> string) list" where
  "agent_map e =
     [(''worker_agent_1'', worker_agent_1_url e),
      (''worker_agent_2'', worker_agent_2_url e),
      (''clause_agent'', worker_agent_1_url e),
      (''compliance_agent'', worker_agent_2_url e)]"

text \<open>
  \<^verbatim>\<open>a in agent_map\<close> followed by \<^verbatim>\<open>agent_map[a]\<close>: the URL of a known name, nothing for any
  other hashable value, \<^verbatim>\<open>TypeError\<close> for a value that cannot be hashed.
\<close>

definition resolve_agent :: "env \<Rightarrow> json \<Rightarrow> exn + string option" where
  "resolve_agent e a =
     (case py_hash_check a of
        Some err \<Rightarrow> Inl err
      | None \<Rightarrow> (case a of JString name \<Rightarrow> Inr (map_of (agent_map e) name) | _ \<Rightarrow> Inr None))"

text \<open>The list comprehension that builds the parallel tasks: it makes no call yet.\<close>

fun parallel_targets :: "env \<Rightarrow> json list \<Rightarrow> exn + string list" where
  "parallel_targets e [] = Inr []"
| "parallel_targets e (a # rest) =
     (case resolve_agent e a of
        Inl err \<Rightarrow> Inl err
      | Inr None \<Rightarrow> parallel_targets e rest
      | Inr (Some url) \<Rightarrow>
          (case parallel_targets e rest of
             Inl err \<Rightarrow> Inl err
           | Inr urls \<Rightarrow> Inr (url # urls)))"

text \<open>
  \<^verbatim>\<open>asyncio.gather(*tasks, return_exceptions=True)\<close>. The tasks run to completion in some
  order the event loop and the network decide: \<open>completion_order\<close> of the environment
  lists task indices; indices out of range and repetitions are ignored and the tasks it
  leaves out run last, so every task runs once whatever the list is. The outcome of task
  \<open>i\<close> is put at position \<open>i\<close>.
\<close>

definition task_order :: "nat list \<Rightarrow> nat \<Rightarrow> nat list" where
  "task_order order n =
     (let picked = remdups (filter (\<lambda>i. i < n) order)
      in picked @ filter (\<lambda>i. i \<notin> set picked) [0..<n])"

fun run_tasks ::
  "(world \<Rightarrow> (exn + 'a) \<times> world) list \<Rightarrow> nat list \<Rightarrow> world \<Rightarrow> (nat \<times> (exn + 'a)) list \<times> world"
where
  "run_tasks tasks [] w = ([], w)"
| "run_tasks tasks (i # rest) w =
     (let (r, w') = (tasks ! i) w;
          (rs, w'') = run_tasks tasks rest w'
      in ((i, r) # rs, w''))"

definition gather ::
  "env \<Rightarrow> (world \<Rightarrow> (exn + 'a) \<times> world) list \<Rightarrow> world \<Rightarrow> (exn + 'a) list \<times> world"
where
  "gather e tasks w =
     (let n = length tasks;
          (finished, w') = run_tasks tasks (task_order (completion_order e) n) w
      in (map (\<lambda>i. case map_of finished i of
                      Some r \<Rightarrow> r
                    | None \<Rightarrow> Inl (PyError ''CancelledError''))
              [0..<n],
          w'))"

definition call_worker_task :: "env \<Rightarrow> json \<Rightarrow> string \<Rightarrow> world \<Rightarrow> (exn + worker_result) \<times> world" where
  "call_worker_task e query url w = (let (r, w') = call_worker e w url query in (Inr r, w'))"

text \<open>What the parallel branch makes of a gathered outcome.\<close>

fun gathered_result :: "exn + worker_result \<Rightarrow> worker_result" where
  "gathered_result (Inr r) = r"
| "gathered_result (Inl err) =
     \<lparr>success = False, result = None, error = Some (str_exn err), agent_url = None\<rparr>"

fun execute_sequential ::
  "env \<Rightarrow> world \<Rightarrow> json \<Rightarrow> json list \<Rightarrow> worker_result list \<Rightarrow> (exn + worker_result list) \<times> world"
where
  "execute_sequential e w query [] results = (Inr results, w)"
| "execute_sequential e w query (agent_name # rest) results =
     (case resolve_agent e agent_name of
        Inl err \<Rightarrow> (Inl err, w)
      | Inr None \<Rightarrow> execute_sequential e w query rest results
      | Inr (Some url) \<Rightarrow>
          (let (r, w') = call_worker e w url query
           in execute_sequential e w' query rest (results @ [r])))"

definition execute_plan ::
  "env \<Rightarrow> world \<Rightarrow> json \<Rightarrow> json \<Rightarrow> (exn + worker_result list) \<times> world"
where
  "execute_plan e w query plan =
     (case dict_get plan ''agents'' (JArray []) of
        Inl err \<Rightarrow> (Inl err, w)
      | Inr agents_to_call \<Rightarrow>
          (case dict_get plan ''parallel'' (JBool False) of
             Inl err \<Rightarrow> (Inl err, w)
           | Inr is_parallel \<Rightarrow>
               (case py_iter agents_to_call of
                  Inl err \<Rightarrow> (Inl err, w)
                | Inr names \<Rightarrow>
                    (if py_truthy is_parallel then
                       (case parallel_targets e names of
                          Inl err \<Rightarrow> (Inl err, w)
                        | Inr urls \<Rightarrow>
                            (let (results, w') = gather e (map (call_worker_task e query) urls) w
                             in (Inr (map gathered_result results), w')))
                     else execute_sequential e w query names []))))"

subsection \<open>Result synthesis\<close>

fun bind_exn :: "exn + 'a \<Rightarrow> ('a \<Rightarrow> exn + 'b) \<Rightarrow> exn + 'b" where
  "bind_exn (Inl err) f = Inl err"
| "bind_exn (Inr v) f = f v"

text \<open>The text of a worker's first artifact, when the call succeeded and it has one.\<close>

definition result_text :: "worker_result \<Rightarrow> exn + json option" where
  "result_text r =
     (if success r then
        bind_exn (dict_get (case result r of Some v \<Rightarrow> v | None \<Rightarrow> JObject []) ''artifacts'' (JArray []))
          (\<lambda>artifacts.
             if py_truthy artifacts then
               bind_exn (py_first artifacts) (\<lambda>artifact.
               bind_exn (dict_get artifact ''parts'' (JArray [])) (\<lambda>parts.
                 if py_truthy parts then
                   bind_exn (py_first parts) (\<lambda>part.
                   bind_exn (dict_get part ''text'' (JString [])) (\<lambda>text. Inr (Some text)))
                 else Inr None))
             else Inr None)
      else Inr None)"

text \<open>The loop over \<^verbatim>\<open>enumerate(results)\<close>, \<open>i\<close> counting every result, failed ones too.\<close>

fun collect_result_texts :: "(json \<Rightarrow> string) \<Rightarrow> nat \<Rightarrow> worker_result list \<Rightarrow> exn + string list" where
  "collect_result_texts repr i [] = Inr []"
| "collect_result_texts repr i (r # rest) =
     (case result_text r of
        Inl err \<Rightarrow> Inl err
      | Inr None \<Rightarrow> collect_result_texts repr (i + 1) rest
      | Inr (Some text) \<Rightarrow>
          (case collect_result_texts repr (i + 1) rest of
             Inl err \<Rightarrow> Inl err
           | Inr texts \<Rightarrow>
               Inr ((''Agent '' @ str_nat (i + 1) @ '' Result:'' @ newline @ format_value repr text)
                    # texts)))"

fun join :: "string \<Rightarrow> string list \<Rightarrow> string" where
  "join sep [] = []"
| "join sep [x] = x"
| "join sep (x # y # rest) = x @ sep @ join sep (y # rest)"

definition synthesis_prompt :: "env \<Rightarrow> json \<Rightarrow> string list \<Rightarrow> string" where
  "synthesis_prompt e query result_texts =
     ''Synthesize these results into a comprehensive answer.'' @ newline @ newline @
     ''ORIGINAL QUERY: '' @ format_value (py_repr e) query @ newline @ newline @
     ''AGENT RESULTS:'' @ newline @
     join newline result_texts @ newline @ newline @
     ''Create a unified response that:'' @ newline @
     ''1. Answers the original query directly'' @ newline @
     ''2. Integrates insights from all sources'' @ newline @
     ''3. Highlights key findings and recommendations'' @ newline @
     ''4. Notes any conflicts or uncertainties''"

definition no_results_text :: string where
  "no_results_text = ''No results obtained from worker agents.''"

definition synthesize_results :: "env \<Rightarrow> world \<Rightarrow> json \<Rightarrow> worker_result list \<Rightarrow> string \<times> world" where
  "synthesize_results e w query results =
     (case create_llm e 2000 of
        Inl err \<Rightarrow> (''Synthesis error: '' @ str_exn err, w)
      | Inr llm \<Rightarrow>
          (case collect_result_texts (py_repr e) 0 results of
             Inl err \<Rightarrow> (''Synthesis error: '' @ str_exn err, w)
           | Inr result_texts \<Rightarrow>
               (if result_texts = [] then (no_results_text, w)
                else
                  (let (response, w') = ainvoke e w llm (synthesis_prompt e query result_texts)
                   in case response of
                        Inl err \<Rightarrow> (''Synthesis error: '' @ str_exn err, w')
                      | Inr content \<Rightarrow> (strip content, w')))))"

subsection \<open>The analysis skill\<close>

text \<open>
  \<^verbatim>\<open>log_event(source, event_type, data)\<close> appends one record to the audit trail. Writing
  the trail is taken to succeed; the events are returned in the order they were logged.
\<close>

type_synonym event = "string \<times> string \<times> json"

fun complexity_value :: "QueryComplexity \<Rightarrow> string" where
  "complexity_value SIMPLE = ''simple''"
| "complexity_value COMPLEX = ''complex''"

definition result_to_json :: "worker_result \<Rightarrow> json" where
  "result_to_json r =
     JObject ([(''success'', JBool (success r))]
              @ (case result r of Some v \<Rightarrow> [(''result'', v)] | None \<Rightarrow> [])
              @ (case error r of Some m \<Rightarrow> [(''error'', JString m)] | None \<Rightarrow> [])
              @ (case agent_url r of Some u \<Rightarrow> [(''agent_url'', JString u)] | None \<Rightarrow> []))"

definition preview :: "string \<Rightarrow> string" where
  "preview s = (if length s > 200 then take 200 s else s)"

definition analyze_legal_query :: "env \<Rightarrow> world \<Rightarrow> json \<Rightarrow> string \<times> world \<times> event list" where
  "analyze_legal_query e w query =
     (let ev0 = [(''ManagerAgent'', ''QUERY_RECEIVED'', JObject [(''query'', query)])];
          (complexity, w1) = classify_complexity e w query;
          ev1 = ev0 @ [(''ManagerAgent'', ''COMPLEXITY_CLASSIFIED'',
                        JObject [(''complexity'', JString (complexity_value complexity))])];
          (plan, w2) = plan_execution e w1 query;
          ev2 = ev1 @ [(''ManagerAgent'', ''PLAN_CREATED'', plan)];
          (executed, w3) = execute_plan e w2 query plan
      in case executed of
           Inl err \<Rightarrow>
             (let error_msg = ''Analysis error: '' @ str_exn err
              in (error_msg, w3,
                  ev2 @ [(''ManagerAgent'', ''ERROR'', JObject [(''error'', JString error_msg)])]))
         | Inr results \<Rightarrow>
             (let ev3 = ev2 @ [(''ManagerAgent'', ''EXECUTION_COMPLETE'',
                                JObject [(''result_count'', JInt (int (length results))),
                                         (''worker_results'', JArray (map result_to_json results))])];
                  (final_answer, w4) = synthesize_results e w3 query results;
                  ev4 = ev3 @ [(''ManagerAgent'', ''SYNTHESIS_COMPLETE'',
                                JObject [(''preview'', JString (preview final_answer)),
                                         (''full_result'', JString final_answer)])]
              in (final_answer, w4, ev4)))"

section \<open>The task protocol\<close>

text \<open>
  Modelled from the spec: \<^verbatim>\<open>Task\<close>, \<^verbatim>\<open>TaskStatus\<close> and \<^verbatim>\<open>TaskState\<close> come from the
  \<^verbatim>\<open>python_a2a\<close> package. A task has the inbound message, a status and the outbound
  artifacts; the states are the four the handlers set.
\<close>

datatype TaskState = PROCESSING | COMPLETED | INPUT_REQUIRED | FAILED

record task_status =
  state :: TaskState
  status_message :: "json option"

record task =
  message :: json
  status :: task_status
  artifacts :: "json list"

definition agent_message :: "string \<Rightarrow> json" where
  "agent_message s = JObject [(''role'', JString ''agent''), (''content'', JObject [(''text'', JString s)])]"

definition text_artifact :: "string \<Rightarrow> json" where
  "text_artifact s = JObject [(''parts'', JArray [JObject [(''type'', JString ''text''), (''text'', JString s)]])]"

text \<open>
  \<^verbatim>\<open>_extract_query\<close>, and the same four lines written out in the manager's handler:
  \<^verbatim>\<open>task.message or {}\<close>, then \<^verbatim>\<open>content\<close>, then its \<^verbatim>\<open>text\<close> or \<^verbatim>\<open>str(content)\<close>.
\<close>

definition extract_query :: "(json \<Rightarrow> string) \<Rightarrow> json \<Rightarrow> exn + json" where
  "extract_query repr msg =
     (let m = (if py_truthy msg then msg else JObject [])
      in bind_exn (dict_get m ''content'' (JObject [])) (\<lambda>content.
           if isinstance_dict content then dict_get content ''text'' (JString [])
           else Inr (JString (format_value repr content))))"

definition task_failed :: "task \<Rightarrow> exn \<Rightarrow> task" where
  "task_failed t err =
     t\<lparr>status := \<lparr>state = FAILED,
                   status_message = Some (agent_message (''Error: '' @ str_exn err))\<rparr>\<rparr>"

subsection \<open>The manager's handler\<close>

definition manager_handle_task :: "env \<Rightarrow> world \<Rightarrow> task \<Rightarrow> task \<times> world \<times> event list" where
  "manager_handle_task e w t0 =
     (let t = t0\<lparr>status := \<lparr>state = PROCESSING, status_message = None\<rparr>\<rparr>
      in case extract_query (py_repr e) (message t) of
           Inl err \<Rightarrow> (task_failed t err, w, [])
         | Inr text \<Rightarrow>
             (if \<not> py_truthy text then
                (t\<lparr>status := \<lparr>state = INPUT_REQUIRED,
                              status_message = Some (agent_message ''Please provide a legal query'')\<rparr>\<rparr>,
                 w, [])
              else
                (let (res, w', evs) = analyze_legal_query e w text
                 in (t\<lparr>artifacts := [text_artifact res],
                       status := \<lparr>state = COMPLETED, status_message = None\<rparr>\<rparr>,
                     w', evs))))"

subsection \<open>The manager's HTTP endpoint\<close>

record wire_response =
  response_id :: json
  response_state :: string
  response_artifacts :: "json list"

text \<open>
  The query of a request body: \<^verbatim>\<open>data.get('message', {})\<close>, then \<^verbatim>\<open>content\<close>, then its
  \<^verbatim>\<open>text\<close> or \<^verbatim>\<open>str(content)\<close>. \<^verbatim>\<open>request.get_json()\<close> may itself raise, so a request
  body is an exception or a value.
\<close>

definition endpoint_query :: "(json \<Rightarrow> string) \<Rightarrow> json \<Rightarrow> exn + json" where
  "endpoint_query repr data =
     bind_exn (dict_get data ''message'' (JObject [])) (\<lambda>msg.
     bind_exn (dict_get msg ''content'' (JObject [])) (\<lambda>content.
       if isinstance_dict content then dict_get content ''text'' (JString [])
       else Inr (JString (format_value repr content))))"

definition endpoint_failed :: "exn \<Rightarrow> wire_response" where
  "endpoint_failed err =
     \<lparr>response_id = JString [], response_state = ''failed'',
      response_artifacts = [text_artifact (''Error: '' @ str_exn err)]\<rparr>"

definition manager_handle_task_endpoint ::
  "env \<Rightarrow> world \<Rightarrow> exn + json \<Rightarrow> wire_response \<times> world \<times> event list"
where
  "manager_handle_task_endpoint e w request_json =
     (case request_json of
        Inl err \<Rightarrow> (endpoint_failed err, w, [])
      | Inr data \<Rightarrow>
          (case endpoint_query (py_repr e) data of
             Inl err \<Rightarrow> (endpoint_failed err, w, [])
           | Inr query \<Rightarrow>
               (if \<not> py_truthy query then
                  (case dict_get data ''id'' (JString []) of
                     Inl err \<Rightarrow> (endpoint_failed err, w, [])
                   | Inr ident \<Rightarrow>
                       (\<lparr>response_id = ident, response_state = ''input_required'',
                         response_artifacts = [text_artifact ''Please provide a legal query'']\<rparr>,
                        w, []))
                else
                  (case py_slice_check query of
                     Some err \<Rightarrow> (endpoint_failed err, w, [])
                   | None \<Rightarrow>
                       (let (res, w', evs) = analyze_legal_query e w query
                        in case dict_get data ''id'' (JString []) of
                             Inl err \<Rightarrow> (endpoint_failed err, w', evs)
                           | Inr ident \<Rightarrow>
                               (\<lparr>response_id = ident, response_state = ''completed'',
                                 response_artifacts = [text_artifact res]\<rparr>,
                                w', evs))))))"

section \<open>The base agent\<close>

text \<open>
  An agent object holds its name, the tool names it was built with, the MCP client once
  one was made (known by the configuration it was made from) and the tools it fetched.
  The registry, the prompt files, the MCP servers and the ReAct loop lie outside.
\<close>

record agent =
  agent_name :: string
  mcp_tool_names :: "string list"
  mcp_client :: "(string \<times> string) list option"
  tools :: "string list"

record agent_env =
  get_tool_url :: "string \<Rightarrow> exn + string"
  load_prompt :: "string \<Rightarrow> exn + string"
  mcp_get_tools :: "(string \<times> string) list \<Rightarrow> exn + string list"
  react_agent :: "string list \<Rightarrow> string \<Rightarrow> json \<Rightarrow> exn + string"
  agent_repr :: "json \<Rightarrow> string"

text \<open>\<^verbatim>\<open>d[k] = v\<close> on a dict kept as a list of pairs.\<close>

fun dict_set :: "(string \<times> 'v) list \<Rightarrow> string \<Rightarrow> 'v \<Rightarrow> (string \<times> 'v) list" where
  "dict_set [] k v = [(k, v)]"
| "dict_set ((k', v') # rest) k v = (if k' = k then (k, v) # rest else (k', v') # dict_set rest k v)"

fun mcp_config_loop ::
  "agent_env \<Rightarrow> string list \<Rightarrow> (string \<times> string) list \<Rightarrow> exn + (string \<times> string) list"
where
  "mcp_config_loop ae [] mcp_config = Inr mcp_config"
| "mcp_config_loop ae (tool_name # rest) mcp_config =
     (case get_tool_url ae tool_name of
        Inl err \<Rightarrow> Inl err
      | Inr url \<Rightarrow>
          (if url \<noteq> [] then mcp_config_loop ae rest (dict_set mcp_config tool_name url)
           else mcp_config_loop ae rest mcp_config))"

definition get_mcp_config :: "agent_env \<Rightarrow> agent \<Rightarrow> exn + (string \<times> string) list" where
  "get_mcp_config ae a = mcp_config_loop ae (mcp_tool_names a) []"

definition ensure_mcp_initialized :: "agent_env \<Rightarrow> agent \<Rightarrow> (exn + bool) \<times> agent" where
  "ensure_mcp_initialized ae a =
     (if mcp_client a \<noteq> None then (Inr True, a)
      else
        (case get_mcp_config ae a of
           Inl err \<Rightarrow> (Inl err, a)
         | Inr mcp_config \<Rightarrow>
             (if mcp_config = [] then (Inr True, a)
              else
                (let a' = a\<lparr>mcp_client := Some mcp_config\<rparr>
                 in case mcp_get_tools ae mcp_config of
                      Inr ts \<Rightarrow> (Inr True, a'\<lparr>tools := ts\<rparr>)
                    | Inl err \<Rightarrow> (Inr False, a')))))"

text \<open>
  \<^verbatim>\<open>run_react_agent(query)\<close> as the workers call it, with no prompt of the caller's, so the
  prompt is the agent's own \<^verbatim>\<open>get_system_prompt()\<close>, passed here as \<open>system_prompt\<close>.
  \<open>react_agent\<close> stands for building the client and the ReAct loop, running the loop and
  reading the content of its last message; any of these may raise.
\<close>

definition run_react_agent ::
  "agent_env \<Rightarrow> (agent_env \<Rightarrow> exn + string) \<Rightarrow> agent \<Rightarrow> json \<Rightarrow> (exn + string) \<times> agent"
where
  "run_react_agent ae system_prompt a query =
     (case ensure_mcp_initialized ae a of
        (Inl err, a') \<Rightarrow> (Inl err, a')
      | (Inr ready, a') \<Rightarrow>
          (if \<not> ready then (Inr ''Error: Failed to initialize MCP tools'', a')
           else if tools a' = [] then (Inr ''Error: No tools available'', a')
           else
             (case system_prompt ae of
                Inl err \<Rightarrow> (Inl err, a')
              | Inr prompt \<Rightarrow> (react_agent ae (tools a') prompt query, a'))))"

subsection \<open>The shared task handler\<close>

text \<open>
  \<^verbatim>\<open>BaseAgent.handle_task\<close>. \<^verbatim>\<open>process_query\<close> is abstract in the base class, so it is a
  parameter: a function of the agent and the query that raises or returns a string.
\<close>

definition handle_task ::
  "(json \<Rightarrow> string) \<Rightarrow> ('s \<Rightarrow> json \<Rightarrow> (exn + string) \<times> 's) \<Rightarrow> string \<Rightarrow> 's \<Rightarrow> task
   \<Rightarrow> task \<times> 's \<times> event list"
where
  "handle_task repr process_query name a t0 =
     (let t = t0\<lparr>status := \<lparr>state = PROCESSING, status_message = None\<rparr>\<rparr>
      in case extract_query repr (message t) of
           Inl err \<Rightarrow>
             (task_failed t err, a, [(name, ''TASK_ERROR'', JObject [(''error'', JString (str_exn err))])])
         | Inr query \<Rightarrow>
             (if \<not> py_truthy query then
                (t\<lparr>status := \<lparr>state = INPUT_REQUIRED,
                              status_message = Some (agent_message ''Please provide a query'')\<rparr>\<rparr>,
                 a, [])
              else
                (let ev0 = [(name, ''TASK_RECEIVED'', JObject [(''query'', query)])];
                     (outcome, a') = process_query a query
                 in case outcome of
                      Inl err \<Rightarrow>
                        (task_failed t err, a',
                         ev0 @ [(name, ''TASK_ERROR'', JObject [(''error'', JString (str_exn err))])])
                    | Inr res \<Rightarrow>
                        (t\<lparr>artifacts := [text_artifact res],
                           status := \<lparr>state = COMPLETED, status_message = None\<rparr>\<rparr>,
                         a',
                         ev0 @ [(name, ''TASK_COMPLETED'',
                                 JObject [(''preview'', JString (preview res)),
                                          (''full_result'', JString res)])]))))"

subsection \<open>The agent's HTTP endpoint\<close>

definition handle_task_endpoint ::
  "(json \<Rightarrow> string) \<Rightarrow> ('s \<Rightarrow> json \<Rightarrow> (exn + string) \<times> 's) \<Rightarrow> 's \<Rightarrow> exn + json
   \<Rightarrow> wire_response \<times> 's"
where
  "handle_task_endpoint repr process_query a request_json =
     (case request_json of
        Inl err \<Rightarrow> (endpoint_failed err, a)
      | Inr data \<Rightarrow>
          (case endpoint_query repr data of
             Inl err \<Rightarrow> (endpoint_failed err, a)
           | Inr query \<Rightarrow>
               (if \<not> py_truthy query then
                  (case dict_get data ''id'' (JString []) of
                     Inl err \<Rightarrow> (endpoint_failed err, a)
                   | Inr ident \<Rightarrow>
                       (\<lparr>response_id = ident, response_state = ''input_required'',
                         response_artifacts = [text_artifact ''Please provide a query'']\<rparr>,
                        a))
                else
                  (case py_slice_check query of
                     Some err \<Rightarrow> (endpoint_failed err, a)
                   | None \<Rightarrow>
                       (case process_query a query of
                          (Inl err, a') \<Rightarrow> (endpoint_failed err, a')
                        | (Inr res, a') \<Rightarrow>
                            (case dict_get data ''id'' (JString []) of
                               Inl err \<Rightarrow> (endpoint_failed err, a')
                             | Inr ident \<Rightarrow>
                                 (\<lparr>response_id = ident, response_state = ''completed'',
                                   response_artifacts = [text_artifact res]\<rparr>,
                                  a')))))))"

section \<open>Worker agent 1\<close>

text \<open>
  Worker agent 2 is the same class under other names: \<^verbatim>\<open>worker_agent_2\<close> for the prompt,
  tools \<^verbatim>\<open>tool_1\<close> and \<^verbatim>\<open>tool_2\<close>, and another fallback prompt.
\<close>

definition worker_agent_1_init :: agent where
  "worker_agent_1_init =
     \<lparr>agent_name = ''WorkerAgent1'', mcp_tool_names = [''tool_1''], mcp_client = None, tools = []\<rparr>"

definition worker_fallback_prompt :: string where
  "worker_fallback_prompt =
     ''You are a data extraction and analysis specialist.'' @ newline @ newline @
     ''## Workflow'' @ newline @
     ''1. Call get_schema() first to discover available data'' @ newline @
     ''2. Use the actual column names to construct queries'' @ newline @
     ''3. Summarize findings for the user'' @ newline @ newline @
     ''## Rules'' @ newline @
     ''- Always use tools to get data - never make up information'' @ newline @
     ''- When you receive results, summarize them clearly'' @ newline"

definition get_system_prompt :: "agent_env \<Rightarrow> exn + string" where
  "get_system_prompt ae =
     (case load_prompt ae ''worker_agent_1'' of
        Inl err \<Rightarrow> Inl err
      | Inr prompt \<Rightarrow> if prompt \<noteq> [] then Inr prompt else Inr worker_fallback_prompt)"

definition process_query :: "agent_env \<Rightarrow> agent \<Rightarrow> json \<Rightarrow> string \<times> agent" where
  "process_query ae a query =
     (case run_react_agent ae get_system_prompt a query of
        (Inr res, a') \<Rightarrow> (res, a')
      | (Inl err, a') \<Rightarrow> (''Error processing query: '' @ str_exn err, a'))"

text \<open>The worker's \<^verbatim>\<open>process_query\<close> as the inherited handlers call it.\<close>

definition worker_process_query :: "agent_env \<Rightarrow> agent \<Rightarrow> json \<Rightarrow> (exn + string) \<times> agent" where
  "worker_process_query ae a query = (let (res, a') = process_query ae a query in (Inr res, a'))"

section \<open>The parsing rule in the specification's words\<close>

text \<open>
  The specification has the planner extract the first balanced structured-object
  substring of the response. Read literally: start at the leftmost opening brace from
  which the braces balance, and stop at the brace that closes it. \<open>scan_balanced\<close>
  follows the nesting depth from an opening brace; \<open>first_balanced_object\<close> tries each
  opening brace from the left.
\<close>

fun scan_balanced :: "nat \<Rightarrow> string \<Rightarrow> string \<Rightarrow> string option" where
  "scan_balanced depth seen [] = None"
| "scan_balanced depth seen (c # s) =
     (if c = CHR ''{'' then scan_balanced (Suc depth) (c # seen) s
      else if c = CHR ''}'' then
        (if depth \<le> 1 then Some (rev (c # seen)) else scan_balanced (depth - 1) (c # seen) s)
      else scan_balanced depth (c # seen) s)"

fun first_balanced_object :: "string \<Rightarrow> string option" where
  "first_balanced_object [] = None"
| "first_balanced_object (c # s) =
     (if c = CHR ''{'' then
        (case scan_balanced 0 [] (c # s) of
           Some m \<Rightarrow> Some m
         | None \<Rightarrow> first_balanced_object s)
      else first_balanced_object s)"

section \<open>The calls of a dispatch\<close>

text \<open>
  Names for the parts of \<^verbatim>\<open>_execute_plan\<close> that the statements about it speak of.
  \<open>resolved_urls\<close> is \<^verbatim>\<open>agent_map[a] for a in agents if a in agent_map\<close>: the URLs of the
  names the agent map knows, in plan order. \<open>request_to\<close> is the request \<^verbatim>\<open>_call_worker\<close>
  posts to a URL. \<open>call_order\<close> lists the positions of the resolved agents in the order
  their calls run: plan order in the sequential loop, completion order under
  \<^verbatim>\<open>asyncio.gather\<close>.
\<close>

definition resolved_urls :: "env \<Rightarrow> string list \<Rightarrow> string list" where
  "resolved_urls e names = List.map_filter (map_of (agent_map e)) names"

definition request_to :: "json \<Rightarrow> string \<Rightarrow> string \<times> json" where
  "request_to query url = (url @ ''/task'', task_payload query)"

definition call_order :: "env \<Rightarrow> json \<Rightarrow> nat \<Rightarrow> nat list" where
  "call_order e is_parallel n =
     (if py_truthy is_parallel then task_order (completion_order e) n else [0..<n])"

section \<open>Scripted environments\<close>

text \<open>
  Concrete worlds to run the definitions in: a language model that answers by the token
  limit of the client that asks, workers that answer by URL, a decoder given as a table
  of the documents it accepts, and a configuration every client can be built from.
\<close>

definition empty_world :: world where
  "empty_world = \<lparr>llm_calls = [], http_calls = []\<rparr>"

definition decode_table :: "(string \<times> json) list \<Rightarrow> string \<Rightarrow> exn + json" where
  "decode_table table s =
     (case map_of table s of Some v \<Rightarrow> Inr v | None \<Rightarrow> Inl (PyError ''JSONDecodeError''))"

definition scripted_env ::
  "(nat \<Rightarrow> exn + string) \<Rightarrow> (string \<Rightarrow> http_outcome) \<Rightarrow> (string \<times> json) list \<Rightarrow> nat list \<Rightarrow> env"
where
  "scripted_env llm http table order =
     \<lparr>llm_reply = (\<lambda>history n prompt. llm n),
      http_reply = (\<lambda>history url body. http url),
      json_loads = decode_table table,
      py_repr = (\<lambda>v. ''<repr>''),
      worker_agent_1_url = ''http://localhost:8101'',
      worker_agent_2_url = ''http://localhost:8102'',
      completion_order = order,
      client_error = (\<lambda>n. None)\<rparr>"

definition worker_reply :: "string \<Rightarrow> json" where
  "worker_reply s =
     JObject [(''id'', JString []),
              (''status'', JObject [(''state'', JString ''completed'')]),
              (''artifacts'', JArray [text_artifact s])]"

text \<open>Replies of the language model to the planning prompt, and what \<^verbatim>\<open>json.loads\<close> makes of them.\<close>

definition no_object_reply :: string where
  "no_object_reply = ''I could not decide on a plan.''"

definition one_object_reply :: string where
  "one_object_reply = ''Plan: {\"agents\": [\"worker_agent_2\"], \"parallel\": true}''"

definition one_object_text :: string where
  "one_object_text = ''{\"agents\": [\"worker_agent_2\"], \"parallel\": true}''"

definition one_object_plan :: json where
  "one_object_plan = JObject [(''agents'', JArray [JString ''worker_agent_2'']), (''parallel'', JBool True)]"

definition empty_agents_reply :: string where
  "empty_agents_reply = ''{\"agents\": []}''"

definition empty_agents_plan :: json where
  "empty_agents_plan = JObject [(''agents'', JArray [])]"

definition two_object_reply :: string where
  "two_object_reply = ''{\"agents\": [\"worker_agent_2\"]} {\"parallel\": true}''"

definition first_object_text :: string where
  "first_object_text = ''{\"agents\": [\"worker_agent_2\"]}''"

definition first_object_plan :: json where
  "first_object_plan = JObject [(''agents'', JArray [JString ''worker_agent_2''])]"

definition no_worker :: "string \<Rightarrow> http_outcome" where
  "no_worker url = HttpRaises TimeoutError"

definition empty_agents_env :: env where
  "empty_agents_env =
     scripted_env (\<lambda>n. Inr empty_agents_reply) no_worker [(empty_agents_reply, empty_agents_plan)] []"

definition two_object_env :: env where
  "two_object_env =
     scripted_env (\<lambda>n. Inr two_object_reply) no_worker [(first_object_text, first_object_plan)] []"

text \<open>An agent with no state whose processing function always raises, and one that answers.\<close>

definition plain_repr :: "json \<Rightarrow> string" where
  "plain_repr v = ''<repr>''"

definition raising_process :: "unit \<Rightarrow> json \<Rightarrow> (exn + string) \<times> unit" where
  "raising_process a query = (Inl (PyError ''boom''), a)"

definition answering_process :: "unit \<Rightarrow> json \<Rightarrow> (exn + string) \<times> unit" where
  "answering_process a query = (Inr ''done'', a)"

definition silent_env :: env where
  "silent_env = scripted_env (\<lambda>n. Inl (PyError ''model unreachable'')) no_worker [] []"

text \<open>The same surroundings with a configuration no client can be built from.\<close>

definition keyless_env :: env where
  "keyless_env = silent_env\<lparr>client_error := (\<lambda>n. Some (PyError ''api_key must be set''))\<rparr>"

text \<open>Request bodies: a query with a task id, and a number where the query should be.\<close>

definition hello_request :: json where
  "hello_request =
     JObject [(''message'', JObject [(''content'', JObject [(''text'', JString ''hello'')])]),
              (''id'', JString ''task-1'')]"

definition number_request :: json where
  "number_request = JObject [(''message'', JObject [(''content'', JObject [(''text'', JInt 5)])])]"

text \<open>An inbound task with the given message, and the message that carries a query.\<close>

definition inbound_task :: "json \<Rightarrow> task" where
  "inbound_task msg =
     \<lparr>message = msg, status = \<lparr>state = PROCESSING, status_message = None\<rparr>, artifacts = []\<rparr>"

definition text_message :: "json \<Rightarrow> json" where
  "text_message query = JObject [(''content'', JObject [(''text'', query)])]"

text \<open>
  A worker's surroundings, scripted by what the registry says of a tool and what the MCP
  servers answer; no prompt file, and a ReAct loop that reports its finding.
\<close>

definition scripted_agent_env ::
  "(string \<Rightarrow> exn + string) \<Rightarrow> ((string \<times> string) list \<Rightarrow> exn + string list) \<Rightarrow> agent_env"
where
  "scripted_agent_env urls servers =
     \<lparr>get_tool_url = urls,
      load_prompt = (\<lambda>name. Inr []),
      mcp_get_tools = servers,
      react_agent = (\<lambda>ts prompt query. Inr ''finding''),
      agent_repr = plain_repr\<rparr>"

definition tool_1_url :: string where
  "tool_1_url = ''http://localhost:11001/mcp''"

text \<open>
  A dispatch in which worker 2 answers and worker 1 times out, with the parallel calls
  completing in the order third, first, second; and a plan that names a worker no
  registry entry knows.
\<close>

definition mixed_workers :: "string \<Rightarrow> http_outcome" where
  "mixed_workers url =
     (if url = ''http://localhost:8102/task'' then HttpResponse 200 (Inr (worker_reply ''compliant''))
      else HttpRaises TimeoutError)"

definition dispatch_env :: env where
  "dispatch_env = scripted_env (\<lambda>n. Inr ''merged answer'') mixed_workers [] [2, 0, 1]"

definition plan_names :: "string list" where
  "plan_names = [''worker_agent_2'', ''unknown_agent'', ''worker_agent_1'', ''compliance_agent'']"

definition parallel_plan :: json where
  "parallel_plan = JObject [(''agents'', JArray (map JString plan_names)), (''parallel'', JBool True)]"

definition sequential_plan :: json where
  "sequential_plan = JObject [(''agents'', JArray (map JString plan_names)), (''parallel'', JBool False)]"

text \<open>
  The same dispatch with a worker 2 that answers with the number of requests made before
  the one it is answering, so that two calls to the same URL have different results.
\<close>

definition counting_workers :: "(string \<times> json) list \<Rightarrow> string \<Rightarrow> json \<Rightarrow> http_outcome" where
  "counting_workers history url body =
     (if url = ''http://localhost:8102/task''
      then HttpResponse 200 (Inr (worker_reply (str_nat (length history))))
      else HttpRaises TimeoutError)"

definition counting_env :: env where
  "counting_env = dispatch_env\<lparr>http_reply := counting_workers\<rparr>"

section \<open>Properties\<close>

subsection \<open>Strings\<close>

lemma starts_with_iff: "starts_with p s \<longleftrightarrow> (\<exists>post. s = p @ post)"
  by (induction p s rule: starts_with.induct) auto

lemma str_contains_iff: "str_contains p s \<longleftrightarrow> (\<exists>pre post. s = pre @ p @ post)"
proof (induction s)
  case Nil
  then show ?case by auto
next
  case (Cons c s)
  show ?case
  proof
    assume "str_contains p (c # s)"
    then consider "starts_with p (c # s)" | "str_contains p s" by auto
    then show "\<exists>pre post. c # s = pre @ p @ post"
    proof cases
      case 1
      then obtain post where "c # s = p @ post" by (auto simp: starts_with_iff)
      then have "c # s = [] @ p @ post" by simp
      then show ?thesis by blast
    next
      case 2
      then obtain pre post where "s = pre @ p @ post" using Cons.IH by auto
      then have "c # s = (c # pre) @ p @ post" by simp
      then show ?thesis by blast
    qed
  next
    assume "\<exists>pre post. c # s = pre @ p @ post"
    then obtain pre post where eq: "c # s = pre @ p @ post" by auto
    show "str_contains p (c # s)"
    proof (cases pre)
      case Nil
      then have "starts_with p (c # s)" using eq by (auto simp: starts_with_iff)
      then show ?thesis by simp
    next
      case (Cons a pre')
      then have "s = pre' @ p @ post" using eq by simp
      then have "str_contains p s" using Cons.IH by auto
      then show ?thesis by simp
    qed
  qed
qed

lemma is_space_ascii_upper: "is_space (ascii_upper c) = is_space c"
  by (auto simp: is_space_def ascii_upper_def Let_def)

lemma upper_dropWhile: "upper (dropWhile is_space s) = dropWhile is_space (upper s)"
  by (induction s) (auto simp: upper_def is_space_ascii_upper)

lemma upper_rev: "upper (rev s) = rev (upper s)"
  by (simp add: upper_def rev_map)

lemma upper_strip: "upper (strip s) = strip (upper s)"
  by (simp add: strip_def lstrip_def rstrip_def upper_dropWhile upper_rev)

lemma str_contains_dropWhile:
  assumes "p \<noteq> []" and "\<not> is_space (hd p)"
  shows "str_contains p (dropWhile is_space s) = str_contains p s"
proof (induction s)
  case Nil
  show ?case by simp
next
  case (Cons c s)
  show ?case
  proof (cases "is_space c")
    case True
    then have "\<not> starts_with p (c # s)" using assms by (cases p) auto
    then show ?thesis using True Cons.IH by simp
  next
    case False
    then show ?thesis by simp
  qed
qed

lemma str_contains_rev: "str_contains (rev p) (rev s) = str_contains p s"
proof -
  have "(\<exists>pre post. rev s = pre @ rev p @ post) = (\<exists>pre post. s = pre @ p @ post)"
  proof
    assume "\<exists>pre post. rev s = pre @ rev p @ post"
    then obtain pre post where "rev s = pre @ rev p @ post" by auto
    then have "rev (rev s) = rev (pre @ rev p @ post)" by simp
    then have "s = rev post @ p @ rev pre" by simp
    then show "\<exists>pre post. s = pre @ p @ post" by blast
  next
    assume "\<exists>pre post. s = pre @ p @ post"
    then obtain pre post where "s = pre @ p @ post" by auto
    then have "rev s = rev post @ rev p @ rev pre" by simp
    then show "\<exists>pre post. rev s = pre @ rev p @ post" by blast
  qed
  then show ?thesis by (simp add: str_contains_iff)
qed

lemma str_contains_strip:
  assumes "p \<noteq> []" and "\<not> is_space (hd p)" and "\<not> is_space (last p)"
  shows "str_contains p (strip s) = str_contains p s"
proof -
  have r: "rev p \<noteq> []" "\<not> is_space (hd (rev p))" using assms by (auto simp: hd_rev)
  have "str_contains p (strip s) = str_contains p (rstrip s)"
    using assms by (simp add: strip_def lstrip_def str_contains_dropWhile)
  also have "\<dots> = str_contains (rev p) (dropWhile is_space (rev s))"
    using str_contains_rev [of p "rstrip s"] by (simp add: rstrip_def)
  also have "\<dots> = str_contains (rev p) (rev s)"
    using r by (rule str_contains_dropWhile)
  also have "\<dots> = str_contains p s" by (rule str_contains_rev)
  finally show ?thesis .
qed

lemma str_contains_upper:
  "str_contains p (upper s) \<longleftrightarrow> (\<exists>pre mid post. s = pre @ mid @ post \<and> map ascii_upper mid = p)"
proof
  assume "str_contains p (upper s)"
  then obtain a b where "map ascii_upper s = a @ p @ b"
    by (auto simp: str_contains_iff upper_def)
  then obtain pre rest where 1: "s = pre @ rest" and 2: "map ascii_upper rest = p @ b"
    using map_eq_append_conv [THEN iffD1] by metis
  from 2 obtain mid post where "rest = mid @ post" and "map ascii_upper mid = p"
    using map_eq_append_conv [THEN iffD1] by metis
  with 1 show "\<exists>pre mid post. s = pre @ mid @ post \<and> map ascii_upper mid = p" by blast
next
  assume "\<exists>pre mid post. s = pre @ mid @ post \<and> map ascii_upper mid = p"
  then obtain pre mid post where "s = pre @ mid @ post" and "map ascii_upper mid = p" by blast
  then have "upper s = upper pre @ p @ upper post" by (simp add: upper_def)
  then show "str_contains p (upper s)" unfolding str_contains_iff by blast
qed

lemma complex_not_space: "''COMPLEX'' \<noteq> []" "\<not> is_space (hd ''COMPLEX'')" "\<not> is_space (last ''COMPLEX'')"
  by (simp_all add: is_space_def)


subsection \<open>Query classification\<close>

lemma create_llm_cases:
  "create_llm e n = (case client_error e n of Some err \<Rightarrow> Inl err | None \<Rightarrow> Inr n)"
  by (simp add: create_llm_def)

text \<open>
  Claim C8. \<^verbatim>\<open>_classify_complexity\<close> returns one of the two classes and never raises: it
  returns COMPLEX exactly when the client was built, the language model answered and
  its answer contains the word COMPLEX in any mix of upper and lower case, and SIMPLE
  for every other answer and whenever building the client or the call failed.
\<close>

theorem classify_complexity_result:
  "fst (classify_complexity e w query) =
     (case client_error e 100 of
        Some err \<Rightarrow> SIMPLE
      | None \<Rightarrow>
          (case llm_reply e (llm_calls w) 100 (classify_prompt e query) of
             Inl err \<Rightarrow> SIMPLE
           | Inr content \<Rightarrow>
               if (\<exists>pre mid post. content = pre @ mid @ post \<and> map ascii_upper mid = ''COMPLEX'')
               then COMPLEX else SIMPLE))"
proof (cases "client_error e 100")
  case (Some err)
  then show ?thesis by (simp add: classify_complexity_def create_llm_cases)
next
  case None
  show ?thesis
  proof (cases "llm_reply e (llm_calls w) 100 (classify_prompt e query)")
    case (Inl err)
    with None show ?thesis
      by (simp add: classify_complexity_def ainvoke_def create_llm_cases)
  next
    case (Inr content)
    have "str_contains ''COMPLEX'' (upper (strip content)) =
          (\<exists>pre mid post. content = pre @ mid @ post \<and> map ascii_upper mid = ''COMPLEX'')"
      using str_contains_strip [OF complex_not_space, of "upper content"]
      by (simp only: upper_strip str_contains_upper)
    with None Inr show ?thesis
      by (simp add: classify_complexity_def ainvoke_def create_llm_cases Let_def)
  qed
qed

subsection \<open>Result synthesis\<close>

lemma result_text_failed: "\<not> success r \<Longrightarrow> result_text r = Inr None"
  by (simp add: result_text_def)

lemma collect_result_texts_failed:
  "\<forall>r\<in>set results. \<not> success r \<Longrightarrow> collect_result_texts repr i results = Inr []"
  by (induction results arbitrary: i) (simp_all add: result_text_failed)

lemma str_nat_one: "str_nat 1 = ''1''" "str_nat (Suc 0) = ''1''"
  by code_simp+

text \<open>
  Claim C6, as the code has it. \<^verbatim>\<open>_synthesize_results\<close> builds its client first. When the
  client is built and no entry of the results sequence succeeded, it returns the fixed
  text \<^verbatim>\<open>No results obtained from worker agents.\<close> and leaves the world as it was: it
  calls no language model. When building the client raises, it returns
  \<^verbatim>\<open>Synthesis error: \<close> followed by the exception's text, whatever the results are, and
  again calls no language model. It returns a string on every input: a failing call of
  the language model and a raising read of a worker's reply give the same kind of text,
  and an answer of the language model is returned stripped.
\<close>

theorem synthesize_results_degraded:
  "(client_error e 2000 = None \<and> (\<forall>r\<in>set results. \<not> success r) \<longrightarrow>
      synthesize_results e w query results = (no_results_text, w)) \<and>
   (\<forall>err.
      client_error e 2000 = Some err \<longrightarrow>
      synthesize_results e w query results = (''Synthesis error: '' @ str_exn err, w)) \<and>
   (\<forall>texts err.
      client_error e 2000 = None \<and>
      collect_result_texts (py_repr e) 0 results = Inr texts \<and> texts \<noteq> [] \<and>
      llm_reply e (llm_calls w) 2000 (synthesis_prompt e query texts) = Inl err \<longrightarrow>
      fst (synthesize_results e w query results) = ''Synthesis error: '' @ str_exn err) \<and>
   (\<forall>texts content.
      client_error e 2000 = None \<and>
      collect_result_texts (py_repr e) 0 results = Inr texts \<and> texts \<noteq> [] \<and>
      llm_reply e (llm_calls w) 2000 (synthesis_prompt e query texts) = Inr content \<longrightarrow>
      synthesize_results e w query results
        = (strip content,
           w\<lparr>llm_calls := llm_calls w @ [(2000, synthesis_prompt e query texts)]\<rparr>)) \<and>
   (\<forall>err.
      client_error e 2000 = None \<and>
      collect_result_texts (py_repr e) 0 results = Inl err \<longrightarrow>
      synthesize_results e w query results = (''Synthesis error: '' @ str_exn err, w))"
  by (auto simp: synthesize_results_def collect_result_texts_failed ainvoke_def create_llm_cases Let_def)

theorem synthesize_results_degraded_witness:
  "synthesize_results silent_env empty_world (JString ''q'')
     [call_failed ''http://localhost:8101'' ''Timeout'']
     = (no_results_text, empty_world) \<and>
   synthesize_results keyless_env empty_world (JString ''q'')
     [call_succeeded ''http://localhost:8101'' (worker_reply ''found'')]
     = (''Synthesis error: api_key must be set'', empty_world) \<and>
   fst (synthesize_results silent_env empty_world (JString ''q'')
          [call_succeeded ''http://localhost:8101'' (worker_reply ''found'')])
     = ''Synthesis error: model unreachable'' \<and>
   fst (synthesize_results dispatch_env empty_world (JString ''q'')
          [call_succeeded ''http://localhost:8101'' (worker_reply ''found'')])
     = ''merged answer'' \<and>
   synthesize_results silent_env empty_world (JString ''q'')
     [call_succeeded ''http://localhost:8101'' (JArray [])]
     = (''Synthesis error: '' @ quoted ''list'' @ '' object has no attribute '' @ quoted ''get'',
        empty_world)"
proof -
  let ?found = "[call_succeeded ''http://localhost:8101'' (worker_reply ''found'')]"
  let ?texts = "[''Agent 1 Result:'' @ newline @ ''found'']"
  have built: "client_error silent_env 2000 = None" "client_error dispatch_env 2000 = None"
    by (simp_all add: silent_env_def dispatch_env_def scripted_env_def)
  have keyless: "client_error keyless_env 2000 = Some (PyError ''api_key must be set'')"
    by (simp add: keyless_env_def)
  have failed: "\<forall>r\<in>set [call_failed ''http://localhost:8101'' ''Timeout'']. \<not> success r"
    by (simp add: call_failed_def)
  have texts:
    "collect_result_texts (py_repr silent_env) 0 ?found = Inr ?texts"
    "collect_result_texts (py_repr dispatch_env) 0 ?found = Inr ?texts"
    "?texts \<noteq> []"
    by (simp_all add: result_text_def call_succeeded_def worker_reply_def text_artifact_def
        format_value_def str_nat_one)
  have replies:
    "llm_reply silent_env (llm_calls empty_world) 2000
       (synthesis_prompt silent_env (JString ''q'') ?texts) = Inl (PyError ''model unreachable'')"
    "llm_reply dispatch_env (llm_calls empty_world) 2000
       (synthesis_prompt dispatch_env (JString ''q'') ?texts) = Inr ''merged answer''"
    by (simp_all add: silent_env_def dispatch_env_def scripted_env_def)
  have stripped: "strip ''merged answer'' = ''merged answer''"
    by code_simp
  have raises:
    "collect_result_texts (py_repr silent_env) 0 [call_succeeded ''http://localhost:8101'' (JArray [])]
       = Inl (PyError (quoted ''list'' @ '' object has no attribute '' @ quoted ''get''))"
    by (simp add: result_text_def call_succeeded_def)
  have 1: "synthesize_results silent_env empty_world (JString ''q'')
             [call_failed ''http://localhost:8101'' ''Timeout''] = (no_results_text, empty_world)"
    using synthesize_results_degraded
            [of silent_env "[call_failed ''http://localhost:8101'' ''Timeout'']" empty_world "JString ''q''"]
          built failed
    by blast
  have 2: "synthesize_results keyless_env empty_world (JString ''q'') ?found
             = (''Synthesis error: '' @ str_exn (PyError ''api_key must be set''), empty_world)"
    using synthesize_results_degraded [of keyless_env ?found empty_world "JString ''q''"] keyless
    by blast
  have 3: "fst (synthesize_results silent_env empty_world (JString ''q'') ?found)
             = ''Synthesis error: '' @ str_exn (PyError ''model unreachable'')"
    using synthesize_results_degraded [of silent_env ?found empty_world "JString ''q''"]
          built(1) texts(1,3) replies(1)
    by blast
  have 4: "synthesize_results dispatch_env empty_world (JString ''q'') ?found
             = (strip ''merged answer'',
                empty_world\<lparr>llm_calls := llm_calls empty_world @
                  [(2000, synthesis_prompt dispatch_env (JString ''q'') ?texts)]\<rparr>)"
    using synthesize_results_degraded [of dispatch_env ?found empty_world "JString ''q''"]
          built(2) texts(2,3) replies(2)
    by blast
  have 5: "synthesize_results silent_env empty_world (JString ''q'')
             [call_succeeded ''http://localhost:8101'' (JArray [])]
             = (''Synthesis error: '' @
                  str_exn (PyError (quoted ''list'' @ '' object has no attribute '' @ quoted ''get'')),
                empty_world)"
    using synthesize_results_degraded
            [of silent_env "[call_succeeded ''http://localhost:8101'' (JArray [])]" empty_world
               "JString ''q''"]
          built(1) raises
    by blast
  from 1 2 3 4 5 show ?thesis by (simp add: stripped)
qed

text \<open>
  The claim as stated fails where no client can be built: every entry of the results
  sequence has failed, and the answer is the error text, not the fixed text for no
  results.
\<close>

theorem synthesize_results_client_error:
  "success (call_failed ''http://localhost:8101'' ''Timeout'') = False \<and>
   synthesize_results keyless_env empty_world (JString ''q'')
     [call_failed ''http://localhost:8101'' ''Timeout'']
     = (''Synthesis error: api_key must be set'', empty_world) \<and>
   ''Synthesis error: api_key must be set'' \<noteq> no_results_text"
  by code_simp

subsection \<open>Execution planning\<close>

lemma dropWhile_no_open:
  "c \<notin> set pre \<Longrightarrow> dropWhile (\<lambda>x. x \<noteq> c) (pre @ c # rest) = c # rest"
  by (induction pre) auto

lemma re_search_braces_span:
  assumes "CHR ''{'' \<notin> set pre" and "CHR ''}'' \<notin> set post"
  shows "re_search_braces (pre @ [CHR ''{''] @ mid @ [CHR ''}''] @ post)
         = Some ([CHR ''{''] @ mid @ [CHR ''}''])"
proof -
  have 1: "dropWhile (\<lambda>c. c \<noteq> CHR ''{'') (pre @ [CHR ''{''] @ mid @ [CHR ''}''] @ post)
           = CHR ''{'' # mid @ [CHR ''}''] @ post"
    using assms(1) dropWhile_no_open [of "CHR ''{''" pre "mid @ [CHR ''}''] @ post"] by simp
  have "CHR ''}'' \<notin> set (rev post)" using assms(2) by simp
  then have 2: "dropWhile (\<lambda>c. c \<noteq> CHR ''}'') (rev post @ CHR ''}'' # rev mid @ [CHR ''{''])
           = CHR ''}'' # rev mid @ [CHR ''{'']"
    by (rule dropWhile_no_open)
  show ?thesis
    unfolding re_search_braces_def 1 by (simp add: 2 Let_def)
qed

lemma re_search_braces_none:
  "re_search_braces s = None \<longleftrightarrow>
     \<not> (\<exists>pre mid post. s = pre @ [CHR ''{''] @ mid @ [CHR ''}''] @ post)"
proof
  assume n: "re_search_braces s = None"
  show "\<not> (\<exists>pre mid post. s = pre @ [CHR ''{''] @ mid @ [CHR ''}''] @ post)"
  proof
    assume "\<exists>pre mid post. s = pre @ [CHR ''{''] @ mid @ [CHR ''}''] @ post"
    then obtain pre mid post where s: "s = pre @ [CHR ''{''] @ mid @ [CHR ''}''] @ post" by blast
    define pre1 where "pre1 = takeWhile (\<lambda>c. c \<noteq> CHR ''{'') s"
    define rest where "rest = dropWhile (\<lambda>c. c \<noteq> CHR ''{'') s"
    have "CHR ''}'' \<in> set rest"
    proof -
      have "CHR ''{'' \<in> set s" using s by simp
      have "length pre1 \<le> length pre"
      proof (rule ccontr)
        assume "\<not> length pre1 \<le> length pre"
        then have "length pre < length pre1" by simp
        then have "pre1 ! length pre = s ! length pre"
          by (simp add: pre1_def takeWhile_nth)
        moreover have "s ! length pre = CHR ''{''" using s by (simp add: nth_append)
        moreover have "pre1 ! length pre \<in> set pre1" using \<open>length pre < length pre1\<close> by simp
        ultimately have "CHR ''{'' \<in> set pre1" by simp
        then show False unfolding pre1_def by (auto dest: set_takeWhileD)
      qed
      moreover have "s = pre1 @ rest" by (simp add: pre1_def rest_def)
      ultimately have "\<exists>t. rest = t @ [CHR ''{''] @ mid @ [CHR ''}''] @ post"
        using s by (metis append_eq_append_conv_if append_eq_conv_conj drop_append append.assoc)
      then show ?thesis by auto
    qed
    then have "dropWhile (\<lambda>c. c \<noteq> CHR ''}'') (rev rest) \<noteq> []"
      by (simp add: dropWhile_eq_Nil_conv)
    then show False using n
      by (auto simp: re_search_braces_def rest_def Let_def dropWhile_eq_Nil_conv split: if_splits)
  qed
next
  assume "\<not> (\<exists>pre mid post. s = pre @ [CHR ''{''] @ mid @ [CHR ''}''] @ post)"
  then show "re_search_braces s = None"
  proof (rule contrapos_np)
    assume "re_search_braces s \<noteq> None"
    define rest where "rest = dropWhile (\<lambda>c. c \<noteq> CHR ''{'') s"
    have ne: "dropWhile (\<lambda>c. c \<noteq> CHR ''}'') (rev rest) \<noteq> []"
      using \<open>re_search_braces s \<noteq> None\<close>
      by (auto simp: re_search_braces_def rest_def Let_def split: if_splits)
    then have "rest \<noteq> []" by auto
    then have "hd rest = CHR ''{''" using hd_dropWhile [of "\<lambda>c. c \<noteq> CHR ''{''" s]
      by (auto simp: rest_def)
    with \<open>rest \<noteq> []\<close> obtain t where rest: "rest = CHR ''{'' # t" by (cases rest) auto
    from ne have "CHR ''}'' \<in> set (rev rest)" by (auto simp: dropWhile_eq_Nil_conv)
    then have "CHR ''}'' \<in> set t" using rest by auto
    then obtain mid post where "t = mid @ CHR ''}'' # post" by (auto simp: in_set_conv_decomp)
    moreover have "s = takeWhile (\<lambda>c. c \<noteq> CHR ''{'') s @ rest" by (simp add: rest_def)
    ultimately have "s = takeWhile (\<lambda>c. c \<noteq> CHR ''{'') s @ [CHR ''{''] @ mid @ [CHR ''}''] @ post"
      using rest by simp
    then show "\<exists>pre mid post. s = pre @ [CHR ''{''] @ mid @ [CHR ''}''] @ post" by blast
  qed
qed

lemma plan_execution_cases:
  "fst (plan_execution e w query) =
     (case client_error e 500 of
        Some err \<Rightarrow> planning_error_plan
      | None \<Rightarrow>
          (case llm_reply e (llm_calls w) 500 (plan_prompt e query) of
             Inl err \<Rightarrow> planning_error_plan
           | Inr text \<Rightarrow>
               (case re_search_braces (strip text) of
                  None \<Rightarrow> default_plan
                | Some matched \<Rightarrow>
                    (case json_loads e matched of
                       Inl err \<Rightarrow> planning_error_plan
                     | Inr plan \<Rightarrow> plan))))"
proof (cases "client_error e 500")
  case None
  then have "create_llm e 500 = Inr 500" by (simp add: create_llm_cases)
  with None show ?thesis
    by (simp add: plan_execution_def ainvoke_def Let_def split: sum.splits option.splits)
next
  case (Some err)
  then have "create_llm e 500 = Inl err" by (simp add: create_llm_cases)
  with Some show ?thesis by (simp add: plan_execution_def)
qed

lemma fallback_plans:
  "dict_get default_plan ''agents'' (JArray []) = Inr (JArray [JString ''worker_agent_1''])"
  "dict_get planning_error_plan ''agents'' (JArray []) = Inr (JArray [JString ''worker_agent_1''])"
  "dict_get default_plan ''parallel'' (JBool False) = Inr (JBool False)"
  "dict_get planning_error_plan ''parallel'' (JBool False) = Inr (JBool False)"
  by (simp_all add: default_plan_def planning_error_plan_def)

text \<open>
  Claim C1, as the code has it. When the client cannot be built or the language model
  fails, when its answer holds no span from an opening to a closing brace, and when
  \<^verbatim>\<open>json.loads\<close> rejects the span,
  \<^verbatim>\<open>_plan_execution\<close> returns a default plan whose agents are the single worker
  \<^verbatim>\<open>worker_agent_1\<close> and whose mode is sequential. When the span decodes, the decoded value
  is returned as it is, whatever its agents are.
\<close>

theorem plan_execution_fallback:
  "(\<not> (client_error e 500 = None \<and>
         (\<exists>text matched plan.
            llm_reply e (llm_calls w) 500 (plan_prompt e query) = Inr text \<and>
            re_search_braces (strip text) = Some matched \<and>
            json_loads e matched = Inr plan)) \<longrightarrow>
      fst (plan_execution e w query) \<in> {default_plan, planning_error_plan} \<and>
      dict_get (fst (plan_execution e w query)) ''agents'' (JArray [])
        = Inr (JArray [JString ''worker_agent_1'']) \<and>
      dict_get (fst (plan_execution e w query)) ''parallel'' (JBool False) = Inr (JBool False)) \<and>
   (\<forall>text matched plan.
      client_error e 500 = None \<and>
      llm_reply e (llm_calls w) 500 (plan_prompt e query) = Inr text \<and>
      re_search_braces (strip text) = Some matched \<and>
      json_loads e matched = Inr plan \<longrightarrow>
      fst (plan_execution e w query) = plan)"
proof (intro conjI impI allI)
  assume n: "\<not> (client_error e 500 = None \<and>
         (\<exists>text matched plan.
            llm_reply e (llm_calls w) 500 (plan_prompt e query) = Inr text \<and>
            re_search_braces (strip text) = Some matched \<and>
            json_loads e matched = Inr plan))"
  then have "fst (plan_execution e w query) = default_plan \<or>
             fst (plan_execution e w query) = planning_error_plan"
    unfolding plan_execution_cases by (auto split: sum.splits option.splits)
  then show "fst (plan_execution e w query) \<in> {default_plan, planning_error_plan}"
    and "dict_get (fst (plan_execution e w query)) ''agents'' (JArray [])
        = Inr (JArray [JString ''worker_agent_1''])"
    and "dict_get (fst (plan_execution e w query)) ''parallel'' (JBool False) = Inr (JBool False)"
    by (auto simp: fallback_plans)
next
  fix reply matched plan
  assume "client_error e 500 = None \<and>
      llm_reply e (llm_calls w) 500 (plan_prompt e query) = Inr reply \<and>
      re_search_braces (strip reply) = Some matched \<and>
      json_loads e matched = Inr plan"
  then show "fst (plan_execution e w query) = plan"
    by (simp add: plan_execution_cases)
qed

theorem plan_execution_fallback_witness:
  "dict_get (fst (plan_execution (scripted_env (\<lambda>n. Inr no_object_reply) no_worker [] [])
                    empty_world (JString ''q''))) ''agents'' (JArray [])
     = Inr (JArray [JString ''worker_agent_1'']) \<and>
   fst (plan_execution (scripted_env (\<lambda>n. Inr one_object_reply) no_worker
                          [(one_object_text, one_object_plan)] [])
          empty_world (JString ''q''))
     = one_object_plan"
proof -
  let ?e1 = "scripted_env (\<lambda>n. Inr no_object_reply) no_worker [] []"
  let ?e2 = "scripted_env (\<lambda>n. Inr one_object_reply) no_worker [(one_object_text, one_object_plan)] []"
  have none: "re_search_braces (strip no_object_reply) = None"
    by code_simp
  have h1: "\<not> (client_error ?e1 500 = None \<and>
         (\<exists>text matched plan.
            llm_reply ?e1 (llm_calls empty_world) 500 (plan_prompt ?e1 (JString ''q'')) = Inr text \<and>
            re_search_braces (strip text) = Some matched \<and>
            json_loads ?e1 matched = Inr plan))"
    using none by (auto simp: scripted_env_def)
  have span: "re_search_braces (strip one_object_reply) = Some one_object_text"
    by code_simp
  have h2: "client_error ?e2 500 = None \<and>
          llm_reply ?e2 (llm_calls empty_world) 500 (plan_prompt ?e2 (JString ''q'')) = Inr one_object_reply \<and>
          re_search_braces (strip one_object_reply) = Some one_object_text \<and>
          json_loads ?e2 one_object_text = Inr one_object_plan"
    using span by (simp add: scripted_env_def decode_table_def)
  show ?thesis
    using plan_execution_fallback [of ?e1 empty_world "JString ''q''"]
          plan_execution_fallback [of ?e2 empty_world "JString ''q''"] h1 h2
    by blast
qed

text \<open>
  The claim as stated fails: a model answer that decodes to a plan with no agents is
  returned unchanged, the dispatcher calls no worker, and the caller gets the text for
  no results.
\<close>

theorem plan_execution_empty_agents:
  "dict_get (fst (plan_execution empty_agents_env empty_world (JString ''q''))) ''agents'' (JArray [])
     = Inr (JArray []) \<and>
   fst (plan_execution empty_agents_env empty_world (JString ''q'')) \<noteq> default_plan \<and>
   fst (execute_plan empty_agents_env empty_world (JString ''q'') empty_agents_plan) = Inr [] \<and>
   fst (analyze_legal_query empty_agents_env empty_world (JString ''q'')) = no_results_text"
  by code_simp

lemma scan_balanced_shape:
  "scan_balanced depth seen s = Some m \<Longrightarrow> \<exists>t. m = rev seen @ t @ [CHR ''}'']"
proof (induction s arbitrary: depth seen)
  case Nil
  then show ?case by simp
next
  case (Cons c s)
  show ?case
  proof (cases "c = CHR ''{''")
    case True
    with Cons.prems have "scan_balanced (Suc depth) (c # seen) s = Some m" by simp
    then obtain t where "m = rev (c # seen) @ t @ [CHR ''}'']" using Cons.IH by blast
    then have "m = rev seen @ (c # t) @ [CHR ''}'']" by simp
    then show ?thesis by blast
  next
    case False
    note not_open = this
    show ?thesis
    proof (cases "c = CHR ''}'' \<and> depth \<le> 1")
      case True
      with Cons.prems not_open have "m = rev seen @ [] @ [CHR ''}'']" by auto
      then show ?thesis by blast
    next
      case False
      with Cons.prems not_open obtain d where "scan_balanced d (c # seen) s = Some m"
        by (auto split: if_splits)
      then obtain t where "m = rev (c # seen) @ t @ [CHR ''}'']" using Cons.IH by blast
      then have "m = rev seen @ (c # t) @ [CHR ''}'']" by simp
      then show ?thesis by blast
    qed
  qed
qed

lemma first_balanced_object_shape:
  "first_balanced_object s = Some m \<Longrightarrow> \<exists>mid. m = [CHR ''{''] @ mid @ [CHR ''}'']"
proof (induction s)
  case Nil
  then show ?case by simp
next
  case (Cons c s)
  show ?case
  proof (cases "c = CHR ''{'' \<and> scan_balanced 0 [] (c # s) \<noteq> None")
    case True
    with Cons.prems have "scan_balanced (Suc 0) [CHR ''{''] s = Some m" by auto
    then show ?thesis using scan_balanced_shape by fastforce
  next
    case False
    with Cons.prems have "first_balanced_object s = Some m" by (auto split: if_splits)
    then show ?thesis by (rule Cons.IH)
  qed
qed

text \<open>
  Claim C7, as the code has it. With its client built, the planner decodes the span of
  the stripped response from its first opening brace to its last closing brace. That
  span is the first balanced object when no opening brace stands before the object and
  no closing brace after it; a response with two objects gives a span that covers both.
\<close>

theorem plan_execution_greedy_span:
  "(\<forall>reply pre mid post.
      client_error e 500 = None \<and>
      llm_reply e (llm_calls w) 500 (plan_prompt e query) = Inr reply \<and>
      strip reply = pre @ [CHR ''{''] @ mid @ [CHR ''}''] @ post \<and>
      CHR ''{'' \<notin> set pre \<and> CHR ''}'' \<notin> set post \<longrightarrow>
      fst (plan_execution e w query)
        = (case json_loads e ([CHR ''{''] @ mid @ [CHR ''}'']) of
             Inr plan \<Rightarrow> plan
           | Inl err \<Rightarrow> planning_error_plan)) \<and>
   (\<forall>reply pre m post.
      client_error e 500 = None \<and>
      llm_reply e (llm_calls w) 500 (plan_prompt e query) = Inr reply \<and>
      first_balanced_object (strip reply) = Some m \<and>
      strip reply = pre @ m @ post \<and>
      CHR ''{'' \<notin> set pre \<and> CHR ''}'' \<notin> set post \<longrightarrow>
      fst (plan_execution e w query)
        = (case json_loads e m of Inr plan \<Rightarrow> plan | Inl err \<Rightarrow> planning_error_plan))"
proof (intro conjI allI impI)
  fix reply pre mid post
  assume a: "client_error e 500 = None \<and>
      llm_reply e (llm_calls w) 500 (plan_prompt e query) = Inr reply \<and>
      strip reply = pre @ [CHR ''{''] @ mid @ [CHR ''}''] @ post \<and>
      CHR ''{'' \<notin> set pre \<and> CHR ''}'' \<notin> set post"
  then have "re_search_braces (strip reply) = Some ([CHR ''{''] @ mid @ [CHR ''}''])"
    using re_search_braces_span [of pre post mid] by simp
  with a show "fst (plan_execution e w query)
        = (case json_loads e ([CHR ''{''] @ mid @ [CHR ''}'']) of
             Inr plan \<Rightarrow> plan
           | Inl err \<Rightarrow> planning_error_plan)"
    by (simp add: plan_execution_cases split: sum.splits)
next
  fix reply pre m post
  assume a: "client_error e 500 = None \<and>
      llm_reply e (llm_calls w) 500 (plan_prompt e query) = Inr reply \<and>
      first_balanced_object (strip reply) = Some m \<and>
      strip reply = pre @ m @ post \<and>
      CHR ''{'' \<notin> set pre \<and> CHR ''}'' \<notin> set post"
  then obtain mid where m: "m = [CHR ''{''] @ mid @ [CHR ''}'']"
    using first_balanced_object_shape by blast
  with a have "re_search_braces (strip reply) = Some m"
    using re_search_braces_span [of pre post mid] by simp
  with a show "fst (plan_execution e w query)
        = (case json_loads e m of Inr plan \<Rightarrow> plan | Inl err \<Rightarrow> planning_error_plan)"
    by (simp add: plan_execution_cases split: sum.splits)
qed

theorem plan_execution_greedy_span_witness:
  "fst (plan_execution (scripted_env (\<lambda>n. Inr two_object_reply) no_worker
                          [(first_object_text, first_object_plan)] [])
          empty_world (JString ''q''))
     = planning_error_plan \<and>
   fst (plan_execution (scripted_env (\<lambda>n. Inr one_object_reply) no_worker
                          [(one_object_text, one_object_plan)] [])
          empty_world (JString ''q''))
     = one_object_plan"
proof -
  let ?e1 = "scripted_env (\<lambda>n. Inr two_object_reply) no_worker [(first_object_text, first_object_plan)] []"
  let ?e2 = "scripted_env (\<lambda>n. Inr one_object_reply) no_worker [(one_object_text, one_object_plan)] []"
  let ?mid = "''\"agents\": [\"worker_agent_2\"]} {\"parallel\": true''"
  have h1: "client_error ?e1 500 = None \<and>
      llm_reply ?e1 (llm_calls empty_world) 500 (plan_prompt ?e1 (JString ''q'')) = Inr two_object_reply \<and>
      strip two_object_reply = [] @ [CHR ''{''] @ ?mid @ [CHR ''}''] @ [] \<and>
      CHR ''{'' \<notin> set [] \<and> CHR ''}'' \<notin> set []"
    by (simp add: scripted_env_def) code_simp
  have d1: "json_loads ?e1 ([CHR ''{''] @ ?mid @ [CHR ''}'']) = Inl (PyError ''JSONDecodeError'')"
    by code_simp
  have h2: "client_error ?e2 500 = None \<and>
      llm_reply ?e2 (llm_calls empty_world) 500 (plan_prompt ?e2 (JString ''q'')) = Inr one_object_reply \<and>
      first_balanced_object (strip one_object_reply) = Some one_object_text \<and>
      strip one_object_reply = ''Plan: '' @ one_object_text @ [] \<and>
      CHR ''{'' \<notin> set ''Plan: '' \<and> CHR ''}'' \<notin> set []"
    by (simp add: scripted_env_def) code_simp
  have d2: "json_loads ?e2 one_object_text = Inr one_object_plan"
    by code_simp
  from plan_execution_greedy_span [of ?e1 empty_world "JString ''q''"] h1
  have "fst (plan_execution ?e1 empty_world (JString ''q''))
        = (case json_loads ?e1 ([CHR ''{''] @ ?mid @ [CHR ''}'']) of
             Inr plan \<Rightarrow> plan
           | Inl err \<Rightarrow> planning_error_plan)"
    by blast
  then have r1: "fst (plan_execution ?e1 empty_world (JString ''q'')) = planning_error_plan"
    unfolding d1 by simp
  from plan_execution_greedy_span [of ?e2 empty_world "JString ''q''"] h2
  have "fst (plan_execution ?e2 empty_world (JString ''q''))
        = (case json_loads ?e2 one_object_text of Inr plan \<Rightarrow> plan | Inl err \<Rightarrow> planning_error_plan)"
    by blast
  then have r2: "fst (plan_execution ?e2 empty_world (JString ''q'')) = one_object_plan"
    unfolding d2 by simp
  from r1 r2 show ?thesis by (rule conjI)
qed

text \<open>
  The claim as stated fails on a response with two objects: the first balanced object
  decodes to a plan for \<^verbatim>\<open>worker_agent_2\<close>, but the span handed to the decoder runs to the
  end of the second object, the decoder rejects it, and the plan is the default one.
\<close>

theorem plan_execution_two_objects:
  "first_balanced_object (strip two_object_reply) = Some first_object_text \<and>
   json_loads two_object_env first_object_text = Inr first_object_plan \<and>
   re_search_braces (strip two_object_reply) = Some two_object_reply \<and>
   fst (plan_execution two_object_env empty_world (JString ''q'')) = planning_error_plan \<and>
   planning_error_plan \<noteq> first_object_plan"
  by code_simp

subsection \<open>The HTTP endpoints\<close>

lemma endpoint_query_dict: "endpoint_query repr data = Inr q \<Longrightarrow> \<exists>kvs. data = JObject kvs"
  by (cases data) (simp_all add: endpoint_query_def)

lemma endpoint_shape_manager:
  "(let r = fst (manager_handle_task_endpoint e w request) in
      (response_state r = ''input_required'' \<and>
       response_artifacts r = [text_artifact ''Please provide a legal query'']) \<or>
      (response_state r = ''failed'' \<and> response_id r = JString [] \<and>
       (\<exists>err. response_artifacts r = [text_artifact (''Error: '' @ str_exn err)])) \<or>
      (response_state r = ''completed'' \<and> (\<exists>res. response_artifacts r = [text_artifact res])))"
  by (auto simp: manager_handle_task_endpoint_def endpoint_failed_def Let_def
      split: sum.splits option.splits prod.splits)

lemma endpoint_shape_agent:
  "(let r = fst (handle_task_endpoint repr process a request) in
      (response_state r = ''input_required'' \<and>
       response_artifacts r = [text_artifact ''Please provide a query'']) \<or>
      (response_state r = ''failed'' \<and> response_id r = JString [] \<and>
       (\<exists>err. response_artifacts r = [text_artifact (''Error: '' @ str_exn err)])) \<or>
      (response_state r = ''completed'' \<and> (\<exists>res. response_artifacts r = [text_artifact res])))"
  by (auto simp: handle_task_endpoint_def endpoint_failed_def Let_def
      split: sum.splits option.splits prod.splits)

lemma endpoint_unreadable_manager:
  "(\<forall>err.
      fst (manager_handle_task_endpoint e w (Inl err))
       = \<lparr>response_id = JString [], response_state = ''failed'',
         response_artifacts = [text_artifact (''Error: '' @ str_exn err)]\<rparr>)"
  by (auto simp: manager_handle_task_endpoint_def endpoint_failed_def Let_def
      split: sum.splits option.splits prod.splits)

lemma endpoint_unreadable_agent:
  "(\<forall>err.
      fst (handle_task_endpoint repr process a (Inl err))
       = \<lparr>response_id = JString [], response_state = ''failed'',
         response_artifacts = [text_artifact (''Error: '' @ str_exn err)]\<rparr>)"
  by (auto simp: handle_task_endpoint_def endpoint_failed_def Let_def
      split: sum.splits option.splits prod.splits)

lemma endpoint_malformed_manager:
  "(\<forall>data err.
      endpoint_query (py_repr e) data = Inl err \<longrightarrow>
      fst (manager_handle_task_endpoint e w (Inr data))
       = \<lparr>response_id = JString [], response_state = ''failed'',
         response_artifacts = [text_artifact (''Error: '' @ str_exn err)]\<rparr>)"
  by (auto simp: manager_handle_task_endpoint_def endpoint_failed_def Let_def
      split: sum.splits option.splits prod.splits)

lemma endpoint_malformed_agent:
  "(\<forall>data err.
      endpoint_query (repr) data = Inl err \<longrightarrow>
      fst (handle_task_endpoint repr process a (Inr data))
       = \<lparr>response_id = JString [], response_state = ''failed'',
         response_artifacts = [text_artifact (''Error: '' @ str_exn err)]\<rparr>)"
  by (auto simp: handle_task_endpoint_def endpoint_failed_def Let_def
      split: sum.splits option.splits prod.splits)

lemma endpoint_empty_manager:
  "(\<forall>data q ident.
      endpoint_query (py_repr e) data = Inr q \<and> \<not> py_truthy q \<and>
      dict_get data ''id'' (JString []) = Inr ident \<longrightarrow>
      fst (manager_handle_task_endpoint e w (Inr data))
       = \<lparr>response_id = ident, response_state = ''input_required'',
         response_artifacts = [text_artifact ''Please provide a legal query'']\<rparr>)"
  by (auto simp: manager_handle_task_endpoint_def endpoint_failed_def Let_def
      split: sum.splits option.splits prod.splits)

lemma endpoint_empty_agent:
  "(\<forall>data q ident.
      endpoint_query (repr) data = Inr q \<and> \<not> py_truthy q \<and>
      dict_get data ''id'' (JString []) = Inr ident \<longrightarrow>
      fst (handle_task_endpoint repr process a (Inr data))
       = \<lparr>response_id = ident, response_state = ''input_required'',
         response_artifacts = [text_artifact ''Please provide a query'']\<rparr>)"
  by (auto simp: handle_task_endpoint_def endpoint_failed_def Let_def
      split: sum.splits option.splits prod.splits)

lemma endpoint_unsliceable_manager:
  "(\<forall>data q err.
      endpoint_query (py_repr e) data = Inr q \<and> py_truthy q \<and>
      py_slice_check q = Some err \<longrightarrow>
      fst (manager_handle_task_endpoint e w (Inr data))
       = \<lparr>response_id = JString [], response_state = ''failed'',
         response_artifacts = [text_artifact (''Error: '' @ str_exn err)]\<rparr>)"
  by (auto simp: manager_handle_task_endpoint_def endpoint_failed_def Let_def
      split: sum.splits option.splits prod.splits)

lemma endpoint_unsliceable_agent:
  "(\<forall>data q err.
      endpoint_query (repr) data = Inr q \<and> py_truthy q \<and>
      py_slice_check q = Some err \<longrightarrow>
      fst (handle_task_endpoint repr process a (Inr data))
       = \<lparr>response_id = JString [], response_state = ''failed'',
         response_artifacts = [text_artifact (''Error: '' @ str_exn err)]\<rparr>)"
  by (auto simp: handle_task_endpoint_def endpoint_failed_def Let_def
      split: sum.splits option.splits prod.splits)

lemma endpoint_completed_manager:
  "(\<forall>data q ident.
      endpoint_query (py_repr e) data = Inr q \<and> py_truthy q \<and>
      py_slice_check q = None \<and> dict_get data ''id'' (JString []) = Inr ident \<longrightarrow>
      fst (manager_handle_task_endpoint e w (Inr data))
       = \<lparr>response_id = ident, response_state = ''completed'',
         response_artifacts = [text_artifact (fst (analyze_legal_query e w q))]\<rparr>)"
  by (auto simp: manager_handle_task_endpoint_def endpoint_failed_def Let_def
      split: sum.splits option.splits prod.splits)

lemma endpoint_completed_agent:
  "(\<forall>data q ident res.
      endpoint_query repr data = Inr q \<and> py_truthy q \<and>
      py_slice_check q = None \<and> dict_get data ''id'' (JString []) = Inr ident \<and>
      fst (process a q) = Inr res \<longrightarrow>
      fst (handle_task_endpoint repr process a (Inr data))
       = \<lparr>response_id = ident, response_state = ''completed'',
         response_artifacts = [text_artifact res]\<rparr>)"
  by (auto simp: handle_task_endpoint_def endpoint_failed_def Let_def
      split: sum.splits option.splits prod.splits)

lemma endpoint_raised_agent:
  "(\<forall>data q err.
      endpoint_query repr data = Inr q \<and> py_truthy q \<and>
      py_slice_check q = None \<and> fst (process a q) = Inl err \<longrightarrow>
      fst (handle_task_endpoint repr process a (Inr data))
       = \<lparr>response_id = JString [], response_state = ''failed'',
         response_artifacts = [text_artifact (''Error: '' @ str_exn err)]\<rparr>)"
  by (auto simp: handle_task_endpoint_def endpoint_failed_def Let_def
      split: sum.splits option.splits prod.splits)

lemma endpoint_query_id:
  "(\<forall>data q.
      endpoint_query repr data = Inr q \<longrightarrow>
      (\<exists>ident. dict_get data ''id'' (JString []) = Inr ident))"
  using endpoint_query_dict by fastforce

lemma endpoint_query_text:
  "(\<forall>kvs m c.
      map_of kvs ''message'' = Some (JObject m) \<and> map_of m ''content'' = Some (JObject c) \<longrightarrow>
      endpoint_query repr (JObject kvs)
       = Inr (case map_of c ''text'' of Some t \<Rightarrow> t | None \<Rightarrow> JString []))"
  by (auto simp: endpoint_query_def split: json.splits option.splits)

lemma endpoint_query_missing:
  "(\<forall>kvs m.
      map_of kvs ''message'' = None \<or>
      (map_of kvs ''message'' = Some (JObject m) \<and> map_of m ''content'' = None) \<longrightarrow>
      endpoint_query repr (JObject kvs) = Inr (JString []))"
  by (auto simp: endpoint_query_def split: json.splits option.splits)

text \<open>
  Claim C2, as the code has it. Every response of the two \<^verbatim>\<open>/task\<close> endpoints carries
  exactly one artifact with one text part. A request body that cannot be read, a body
  whose message cannot be read, a query that cannot be cut for the log line and (for an
  agent) a processing function that raises are answered \<^verbatim>\<open>failed\<close>, with an empty id and
  the text \<^verbatim>\<open>Error: \<close> followed by the exception's text. A query that is empty or missing
  is answered \<^verbatim>\<open>input_required\<close> with the prompt for input as the text. Every other
  request is answered \<^verbatim>\<open>completed\<close> with the result of processing the query as the text:
  the answer of \<^verbatim>\<open>analyze_legal_query\<close> for the manager, the string \<^verbatim>\<open>process_query\<close>
  returned for an agent. The query is \<^verbatim>\<open>message.content.text\<close> of the body, the empty
  string when a part of that path is missing.
\<close>

theorem endpoint_response_artifacts:
  "(let r = fst (manager_handle_task_endpoint e w request) in
      (response_state r = ''input_required'' \<and>
       response_artifacts r = [text_artifact ''Please provide a legal query'']) \<or>
      (response_state r = ''failed'' \<and> response_id r = JString [] \<and>
       (\<exists>err. response_artifacts r = [text_artifact (''Error: '' @ str_exn err)])) \<or>
      (response_state r = ''completed'' \<and> (\<exists>res. response_artifacts r = [text_artifact res]))) \<and>
   (let r = fst (handle_task_endpoint repr process a request) in
      (response_state r = ''input_required'' \<and>
       response_artifacts r = [text_artifact ''Please provide a query'']) \<or>
      (response_state r = ''failed'' \<and> response_id r = JString [] \<and>
       (\<exists>err. response_artifacts r = [text_artifact (''Error: '' @ str_exn err)])) \<or>
      (response_state r = ''completed'' \<and> (\<exists>res. response_artifacts r = [text_artifact res]))) \<and>
   (\<forall>err.
      fst (manager_handle_task_endpoint e w (Inl err))
       = \<lparr>response_id = JString [], response_state = ''failed'',
         response_artifacts = [text_artifact (''Error: '' @ str_exn err)]\<rparr>) \<and>
   (\<forall>err.
      fst (handle_task_endpoint repr process a (Inl err))
       = \<lparr>response_id = JString [], response_state = ''failed'',
         response_artifacts = [text_artifact (''Error: '' @ str_exn err)]\<rparr>) \<and>
   (\<forall>data err.
      endpoint_query (py_repr e) data = Inl err \<longrightarrow>
      fst (manager_handle_task_endpoint e w (Inr data))
       = \<lparr>response_id = JString [], response_state = ''failed'',
         response_artifacts = [text_artifact (''Error: '' @ str_exn err)]\<rparr>) \<and>
   (\<forall>data err.
      endpoint_query (repr) data = Inl err \<longrightarrow>
      fst (handle_task_endpoint repr process a (Inr data))
       = \<lparr>response_id = JString [], response_state = ''failed'',
         response_artifacts = [text_artifact (''Error: '' @ str_exn err)]\<rparr>) \<and>
   (\<forall>data q ident.
      endpoint_query (py_repr e) data = Inr q \<and> \<not> py_truthy q \<and>
      dict_get data ''id'' (JString []) = Inr ident \<longrightarrow>
      fst (manager_handle_task_endpoint e w (Inr data))
       = \<lparr>response_id = ident, response_state = ''input_required'',
         response_artifacts = [text_artifact ''Please provide a legal query'']\<rparr>) \<and>
   (\<forall>data q ident.
      endpoint_query (repr) data = Inr q \<and> \<not> py_truthy q \<and>
      dict_get data ''id'' (JString []) = Inr ident \<longrightarrow>
      fst (handle_task_endpoint repr process a (Inr data))
       = \<lparr>response_id = ident, response_state = ''input_required'',
         response_artifacts = [text_artifact ''Please provide a query'']\<rparr>) \<and>
   (\<forall>data q err.
      endpoint_query (py_repr e) data = Inr q \<and> py_truthy q \<and>
      py_slice_check q = Some err \<longrightarrow>
      fst (manager_handle_task_endpoint e w (Inr data))
       = \<lparr>response_id = JString [], response_state = ''failed'',
         response_artifacts = [text_artifact (''Error: '' @ str_exn err)]\<rparr>) \<and>
   (\<forall>data q err.
      endpoint_query (repr) data = Inr q \<and> py_truthy q \<and>
      py_slice_check q = Some err \<longrightarrow>
      fst (handle_task_endpoint repr process a (Inr data))
       = \<lparr>response_id = JString [], response_state = ''failed'',
         response_artifacts = [text_artifact (''Error: '' @ str_exn err)]\<rparr>) \<and>
   (\<forall>data q ident.
      endpoint_query (py_repr e) data = Inr q \<and> py_truthy q \<and>
      py_slice_check q = None \<and> dict_get data ''id'' (JString []) = Inr ident \<longrightarrow>
      fst (manager_handle_task_endpoint e w (Inr data))
       = \<lparr>response_id = ident, response_state = ''completed'',
         response_artifacts = [text_artifact (fst (analyze_legal_query e w q))]\<rparr>) \<and>
   (\<forall>data q ident res.
      endpoint_query repr data = Inr q \<and> py_truthy q \<and>
      py_slice_check q = None \<and> dict_get data ''id'' (JString []) = Inr ident \<and>
      fst (process a q) = Inr res \<longrightarrow>
      fst (handle_task_endpoint repr process a (Inr data))
       = \<lparr>response_id = ident, response_state = ''completed'',
         response_artifacts = [text_artifact res]\<rparr>) \<and>
   (\<forall>data q err.
      endpoint_query repr data = Inr q \<and> py_truthy q \<and>
      py_slice_check q = None \<and> fst (process a q) = Inl err \<longrightarrow>
      fst (handle_task_endpoint repr process a (Inr data))
       = \<lparr>response_id = JString [], response_state = ''failed'',
         response_artifacts = [text_artifact (''Error: '' @ str_exn err)]\<rparr>) \<and>
   (\<forall>data q.
      endpoint_query repr data = Inr q \<longrightarrow>
      (\<exists>ident. dict_get data ''id'' (JString []) = Inr ident)) \<and>
   (\<forall>kvs m c.
      map_of kvs ''message'' = Some (JObject m) \<and> map_of m ''content'' = Some (JObject c) \<longrightarrow>
      endpoint_query repr (JObject kvs)
       = Inr (case map_of c ''text'' of Some t \<Rightarrow> t | None \<Rightarrow> JString [])) \<and>
   (\<forall>kvs m.
      map_of kvs ''message'' = None \<or>
      (map_of kvs ''message'' = Some (JObject m) \<and> map_of m ''content'' = None) \<longrightarrow>
      endpoint_query repr (JObject kvs) = Inr (JString []))"
  by (intro conjI)
     (rule endpoint_shape_manager,
      rule endpoint_shape_agent,
      rule endpoint_unreadable_manager,
      rule endpoint_unreadable_agent,
      rule endpoint_malformed_manager,
      rule endpoint_malformed_agent,
      rule endpoint_empty_manager,
      rule endpoint_empty_agent,
      rule endpoint_unsliceable_manager,
      rule endpoint_unsliceable_agent,
      rule endpoint_completed_manager,
      rule endpoint_completed_agent,
      rule endpoint_raised_agent,
      rule endpoint_query_id,
      rule endpoint_query_text,
      rule endpoint_query_missing)

theorem endpoint_response_artifacts_witness:
  "fst (manager_handle_task_endpoint silent_env empty_world (Inr (task_payload (JString []))))
     = \<lparr>response_id = JString [], response_state = ''input_required'',
        response_artifacts = [text_artifact ''Please provide a legal query'']\<rparr> \<and>
   fst (manager_handle_task_endpoint silent_env empty_world (Inr hello_request))
     = \<lparr>response_id = JString ''task-1'', response_state = ''completed'',
        response_artifacts = [text_artifact no_results_text]\<rparr> \<and>
   fst (manager_handle_task_endpoint silent_env empty_world (Inr (JArray [])))
     = \<lparr>response_id = JString [], response_state = ''failed'',
        response_artifacts =
          [text_artifact (''Error: '' @ quoted ''list'' @ '' object has no attribute '' @ quoted ''get'')]\<rparr> \<and>
   fst (manager_handle_task_endpoint silent_env empty_world (Inr number_request))
     = \<lparr>response_id = JString [], response_state = ''failed'',
        response_artifacts =
          [text_artifact (''Error: '' @ quoted ''int'' @ '' object is not subscriptable'')]\<rparr> \<and>
   fst (handle_task_endpoint plain_repr answering_process () (Inr hello_request))
     = \<lparr>response_id = JString ''task-1'', response_state = ''completed'',
        response_artifacts = [text_artifact ''done'']\<rparr> \<and>
   fst (handle_task_endpoint plain_repr raising_process () (Inr hello_request))
     = \<lparr>response_id = JString [], response_state = ''failed'',
        response_artifacts = [text_artifact ''Error: boom'']\<rparr> \<and>
   fst (handle_task_endpoint plain_repr raising_process () (Inr (task_payload (JString []))))
     = \<lparr>response_id = JString [], response_state = ''input_required'',
        response_artifacts = [text_artifact ''Please provide a query'']\<rparr>"
proof -
  let ?none = "task_payload (JString [])"
  let ?list = "PyError (quoted ''list'' @ '' object has no attribute '' @ quoted ''get'')"
  let ?int = "PyError (quoted ''int'' @ '' object is not subscriptable'')"
  note for_answering =
    endpoint_response_artifacts
      [where e = silent_env and w = empty_world and repr = plain_repr
         and process = answering_process and a = "()"]
  note for_raising =
    endpoint_response_artifacts
      [where e = silent_env and w = empty_world and repr = plain_repr
         and process = raising_process and a = "()"]
  have repr: "py_repr silent_env = plain_repr"
    by (rule ext) (simp add: silent_env_def scripted_env_def plain_repr_def)
  have q_none: "endpoint_query plain_repr ?none = Inr (JString [])"
    and q_hello: "endpoint_query plain_repr hello_request = Inr (JString ''hello'')"
    and q_list: "endpoint_query plain_repr (JArray []) = Inl ?list"
    and q_number: "endpoint_query plain_repr number_request = Inr (JInt 5)"
    by (simp_all add: endpoint_query_def task_payload_def hello_request_def number_request_def)
  have id_none: "dict_get ?none ''id'' (JString []) = Inr (JString [])"
    and id_hello: "dict_get hello_request ''id'' (JString []) = Inr (JString ''task-1'')"
    by (simp_all add: task_payload_def hello_request_def)
  have slices: "py_slice_check (JString ''hello'') = None" "py_slice_check (JInt 5) = Some ?int"
    by simp_all
  have truthy: "\<not> py_truthy (JString [])" "py_truthy (JString ''hello'')" "py_truthy (JInt 5)"
    by simp_all
  have processed:
    "fst (answering_process () (JString ''hello'')) = Inr ''done''"
    "fst (raising_process () (JString ''hello'')) = Inl (PyError ''boom'')"
    by (simp_all add: answering_process_def raising_process_def)
  have answer: "fst (analyze_legal_query silent_env empty_world (JString ''hello'')) = no_results_text"
    by code_simp
  have 1: "fst (manager_handle_task_endpoint silent_env empty_world (Inr ?none))
     = \<lparr>response_id = JString [], response_state = ''input_required'',
        response_artifacts = [text_artifact ''Please provide a legal query'']\<rparr>"
    using for_answering [of "Inr ?none", THEN conjunct2, THEN conjunct2, THEN conjunct2, THEN conjunct2, THEN conjunct2, THEN conjunct2, THEN conjunct1, rule_format] q_none id_none truthy(1)
    unfolding repr by blast
  have 2: "fst (manager_handle_task_endpoint silent_env empty_world (Inr hello_request))
     = \<lparr>response_id = JString ''task-1'', response_state = ''completed'',
        response_artifacts =
          [text_artifact (fst (analyze_legal_query silent_env empty_world (JString ''hello'')))]\<rparr>"
    using for_answering [of "Inr ?none", THEN conjunct2, THEN conjunct2, THEN conjunct2, THEN conjunct2, THEN conjunct2, THEN conjunct2, THEN conjunct2, THEN conjunct2, THEN conjunct2, THEN conjunct2, THEN conjunct1, rule_format] q_hello id_hello truthy(2) slices(1)
    unfolding repr by blast
  have 3: "fst (manager_handle_task_endpoint silent_env empty_world (Inr (JArray [])))
     = \<lparr>response_id = JString [], response_state = ''failed'',
        response_artifacts = [text_artifact (''Error: '' @ str_exn ?list)]\<rparr>"
    using for_answering [of "Inr ?none", THEN conjunct2, THEN conjunct2, THEN conjunct2, THEN conjunct2, THEN conjunct1, rule_format] q_list
    unfolding repr by blast
  have 4: "fst (manager_handle_task_endpoint silent_env empty_world (Inr number_request))
     = \<lparr>response_id = JString [], response_state = ''failed'',
        response_artifacts = [text_artifact (''Error: '' @ str_exn ?int)]\<rparr>"
    using for_answering [of "Inr ?none", THEN conjunct2, THEN conjunct2, THEN conjunct2, THEN conjunct2, THEN conjunct2, THEN conjunct2, THEN conjunct2, THEN conjunct2, THEN conjunct1, rule_format] q_number truthy(3) slices(2)
    unfolding repr by blast
  have 5: "fst (handle_task_endpoint plain_repr answering_process () (Inr hello_request))
     = \<lparr>response_id = JString ''task-1'', response_state = ''completed'',
        response_artifacts = [text_artifact ''done'']\<rparr>"
    using for_answering [of "Inr ?none", THEN conjunct2, THEN conjunct2, THEN conjunct2, THEN conjunct2, THEN conjunct2, THEN conjunct2, THEN conjunct2, THEN conjunct2, THEN conjunct2, THEN conjunct2, THEN conjunct2, THEN conjunct1, rule_format] q_hello id_hello truthy(2) slices(1) processed(1)
    by blast
  have 6: "fst (handle_task_endpoint plain_repr raising_process () (Inr hello_request))
     = \<lparr>response_id = JString [], response_state = ''failed'',
        response_artifacts = [text_artifact (''Error: '' @ str_exn (PyError ''boom''))]\<rparr>"
    using for_raising [of "Inr ?none", THEN conjunct2, THEN conjunct2, THEN conjunct2, THEN conjunct2, THEN conjunct2, THEN conjunct2, THEN conjunct2, THEN conjunct2, THEN conjunct2, THEN conjunct2, THEN conjunct2, THEN conjunct2, THEN conjunct1, rule_format] q_hello truthy(2) slices(1) processed(2)
    by blast
  have 7: "fst (handle_task_endpoint plain_repr raising_process () (Inr ?none))
     = \<lparr>response_id = JString [], response_state = ''input_required'',
        response_artifacts = [text_artifact ''Please provide a query'']\<rparr>"
    using for_raising [of "Inr ?none", THEN conjunct2, THEN conjunct2, THEN conjunct2, THEN conjunct2, THEN conjunct2, THEN conjunct2, THEN conjunct2, THEN conjunct1, rule_format] q_none id_none truthy(1)
    by blast
  from 1 2 3 4 5 6 7 show ?thesis by (simp add: answer)
qed

text \<open>
  The claim as stated fails: a request with an empty query is answered
  \<^verbatim>\<open>input_required\<close> with the prompt as an artifact, and a request whose processing raises
  is answered \<^verbatim>\<open>failed\<close> with the error text as an artifact.
\<close>

theorem endpoint_artifacts_not_empty:
  "response_state (fst (manager_handle_task_endpoint silent_env empty_world
                          (Inr (task_payload (JString [])))))
     = ''input_required'' \<and>
   response_artifacts (fst (manager_handle_task_endpoint silent_env empty_world
                              (Inr (task_payload (JString [])))))
     = [text_artifact ''Please provide a legal query''] \<and>
   response_artifacts (fst (manager_handle_task_endpoint silent_env empty_world
                              (Inr (task_payload (JString [])))))
     \<noteq> [] \<and>
   response_state (fst (handle_task_endpoint plain_repr raising_process ()
                          (Inr (task_payload (JString ''hello'')))))
     = ''failed'' \<and>
   response_artifacts (fst (handle_task_endpoint plain_repr raising_process ()
                              (Inr (task_payload (JString ''hello'')))))
     \<noteq> []"
  by code_simp

subsection \<open>The task handlers\<close>

lemma handle_task_state:
  "state (status (fst (handle_task repr process name a t))) =
     (case extract_query repr (message t) of
        Inl err \<Rightarrow> FAILED
      | Inr q \<Rightarrow>
          if \<not> py_truthy q then INPUT_REQUIRED
          else (case fst (process a q) of Inl err \<Rightarrow> FAILED | Inr res \<Rightarrow> COMPLETED))"
  by (simp add: handle_task_def task_failed_def Let_def split: sum.splits prod.splits)

lemma manager_handle_task_state:
  "state (status (fst (manager_handle_task e w t))) =
     (case extract_query (py_repr e) (message t) of
        Inl err \<Rightarrow> FAILED
      | Inr q \<Rightarrow> if \<not> py_truthy q then INPUT_REQUIRED else COMPLETED)"
  by (simp add: manager_handle_task_def task_failed_def Let_def split: sum.splits prod.splits)

text \<open>
  Claim C5. \<^verbatim>\<open>BaseAgent.handle_task\<close> and the manager's \<^verbatim>\<open>handle_task\<close> return the task in
  one of the states COMPLETED, INPUT_REQUIRED and FAILED, whatever the message and
  whatever the processing function does. An empty query gives INPUT_REQUIRED; a result
  of the processing function gives COMPLETED with the result as the one text artifact;
  an exception of the processing function, or of reading the message, gives FAILED with
  \<^verbatim>\<open>Error: \<close> and the exception's text as the status message.
\<close>

theorem handle_task_terminal:
  "state (status (fst (handle_task repr process name a t))) \<in> {COMPLETED, INPUT_REQUIRED, FAILED} \<and>
   state (status (fst (manager_handle_task e w t))) \<in> {COMPLETED, INPUT_REQUIRED, FAILED} \<and>
   (\<forall>q. extract_query repr (message t) = Inr q \<and> \<not> py_truthy q \<longrightarrow>
      state (status (fst (handle_task repr process name a t))) = INPUT_REQUIRED) \<and>
   (\<forall>q res. extract_query repr (message t) = Inr q \<and> py_truthy q \<and> fst (process a q) = Inr res \<longrightarrow>
      state (status (fst (handle_task repr process name a t))) = COMPLETED \<and>
      artifacts (fst (handle_task repr process name a t)) = [text_artifact res]) \<and>
   (\<forall>q err. extract_query repr (message t) = Inr q \<and> py_truthy q \<and> fst (process a q) = Inl err \<longrightarrow>
      status (fst (handle_task repr process name a t))
        = \<lparr>state = FAILED, status_message = Some (agent_message (''Error: '' @ str_exn err))\<rparr>) \<and>
   (\<forall>err. extract_query repr (message t) = Inl err \<longrightarrow>
      status (fst (handle_task repr process name a t))
        = \<lparr>state = FAILED, status_message = Some (agent_message (''Error: '' @ str_exn err))\<rparr>) \<and>
   (\<forall>q. extract_query (py_repr e) (message t) = Inr q \<and> \<not> py_truthy q \<longrightarrow>
      state (status (fst (manager_handle_task e w t))) = INPUT_REQUIRED) \<and>
   (\<forall>q. extract_query (py_repr e) (message t) = Inr q \<and> py_truthy q \<longrightarrow>
      state (status (fst (manager_handle_task e w t))) = COMPLETED \<and>
      artifacts (fst (manager_handle_task e w t))
        = [text_artifact (fst (analyze_legal_query e w q))]) \<and>
   (\<forall>err. extract_query (py_repr e) (message t) = Inl err \<longrightarrow>
      status (fst (manager_handle_task e w t))
        = \<lparr>state = FAILED, status_message = Some (agent_message (''Error: '' @ str_exn err))\<rparr>)"
proof (intro conjI allI impI)
  show "state (status (fst (handle_task repr process name a t))) \<in> {COMPLETED, INPUT_REQUIRED, FAILED}"
    unfolding handle_task_state by (simp split: sum.splits)
  show "state (status (fst (manager_handle_task e w t))) \<in> {COMPLETED, INPUT_REQUIRED, FAILED}"
    unfolding manager_handle_task_state by (simp split: sum.splits)
next
  fix q
  assume "extract_query repr (message t) = Inr q \<and> \<not> py_truthy q"
  then show "state (status (fst (handle_task repr process name a t))) = INPUT_REQUIRED"
    by (simp add: handle_task_state)
next
  fix q res
  assume h: "extract_query repr (message t) = Inr q \<and> py_truthy q \<and> fst (process a q) = Inr res"
  then obtain a' where "process a q = (Inr res, a')" by (cases "process a q") auto
  with h show "state (status (fst (handle_task repr process name a t))) = COMPLETED"
    and "artifacts (fst (handle_task repr process name a t)) = [text_artifact res]"
    by (simp_all add: handle_task_def Let_def)
next
  fix q err
  assume h: "extract_query repr (message t) = Inr q \<and> py_truthy q \<and> fst (process a q) = Inl err"
  then obtain a' where "process a q = (Inl err, a')" by (cases "process a q") auto
  with h show "status (fst (handle_task repr process name a t))
        = \<lparr>state = FAILED, status_message = Some (agent_message (''Error: '' @ str_exn err))\<rparr>"
    by (simp add: handle_task_def task_failed_def Let_def)
next
  fix err
  assume "extract_query repr (message t) = Inl err"
  then show "status (fst (handle_task repr process name a t))
        = \<lparr>state = FAILED, status_message = Some (agent_message (''Error: '' @ str_exn err))\<rparr>"
    by (simp add: handle_task_def task_failed_def Let_def)
next
  fix q
  assume "extract_query (py_repr e) (message t) = Inr q \<and> \<not> py_truthy q"
  then show "state (status (fst (manager_handle_task e w t))) = INPUT_REQUIRED"
    by (simp add: manager_handle_task_state)
next
  fix q
  assume h: "extract_query (py_repr e) (message t) = Inr q \<and> py_truthy q"
  then show "state (status (fst (manager_handle_task e w t))) = COMPLETED"
    and "artifacts (fst (manager_handle_task e w t))
        = [text_artifact (fst (analyze_legal_query e w q))]"
    by (simp_all add: manager_handle_task_def Let_def split: prod.splits)
next
  fix err
  assume "extract_query (py_repr e) (message t) = Inl err"
  then show "status (fst (manager_handle_task e w t))
        = \<lparr>state = FAILED, status_message = Some (agent_message (''Error: '' @ str_exn err))\<rparr>"
    by (simp add: manager_handle_task_def task_failed_def Let_def)
qed

theorem handle_task_terminal_witness:
  "state (status (fst (handle_task plain_repr answering_process ''WorkerAgent1'' ()
                         (inbound_task (text_message (JString []))))))
     = INPUT_REQUIRED \<and>
   state (status (fst (handle_task plain_repr answering_process ''WorkerAgent1'' ()
                         (inbound_task (text_message (JString ''hello''))))))
     = COMPLETED \<and>
   artifacts (fst (handle_task plain_repr answering_process ''WorkerAgent1'' ()
                     (inbound_task (text_message (JString ''hello'')))))
     = [text_artifact ''done''] \<and>
   status (fst (handle_task plain_repr raising_process ''WorkerAgent1'' ()
                  (inbound_task (text_message (JString ''hello'')))))
     = \<lparr>state = FAILED, status_message = Some (agent_message ''Error: boom'')\<rparr> \<and>
   state (status (fst (handle_task plain_repr answering_process ''WorkerAgent1'' ()
                         (inbound_task (JString ''malformed'')))))
     = FAILED \<and>
   state (status (fst (manager_handle_task silent_env empty_world
                         (inbound_task (text_message (JString []))))))
     = INPUT_REQUIRED \<and>
   artifacts (fst (manager_handle_task silent_env empty_world
                     (inbound_task (text_message (JString ''hello'')))))
     = [text_artifact no_results_text] \<and>
   state (status (fst (manager_handle_task silent_env empty_world (inbound_task (JString ''malformed'')))))
     = FAILED"
proof -
  let ?empty = "inbound_task (text_message (JString []))"
  let ?hello = "inbound_task (text_message (JString ''hello''))"
  let ?malformed = "inbound_task (JString ''malformed'')"
  let ?err = "PyError (quoted ''str'' @ '' object has no attribute '' @ quoted ''get'')"
  have q_empty: "extract_query plain_repr (message ?empty) = Inr (JString [])"
    and q_hello: "extract_query plain_repr (message ?hello) = Inr (JString ''hello'')"
    and q_malformed: "extract_query plain_repr (message ?malformed) = Inl ?err"
    by (simp_all add: extract_query_def inbound_task_def text_message_def)
  have repr: "py_repr silent_env = plain_repr"
    by (rule ext) (simp add: silent_env_def scripted_env_def plain_repr_def)
  have answer: "fst (analyze_legal_query silent_env empty_world (JString ''hello'')) = no_results_text"
    by code_simp
  have 1: "state (status (fst (handle_task plain_repr answering_process ''WorkerAgent1'' () ?empty)))
             = INPUT_REQUIRED"
    using handle_task_terminal
            [of plain_repr answering_process "''WorkerAgent1''" "()" ?empty silent_env empty_world]
          q_empty
    by simp
  have 2: "state (status (fst (handle_task plain_repr answering_process ''WorkerAgent1'' () ?hello)))
             = COMPLETED \<and>
           artifacts (fst (handle_task plain_repr answering_process ''WorkerAgent1'' () ?hello))
             = [text_artifact ''done'']"
    using handle_task_terminal
            [of plain_repr answering_process "''WorkerAgent1''" "()" ?hello silent_env empty_world]
          q_hello
    by (simp add: answering_process_def)
  have 3: "status (fst (handle_task plain_repr raising_process ''WorkerAgent1'' () ?hello))
             = \<lparr>state = FAILED, status_message = Some (agent_message ''Error: boom'')\<rparr>"
    using handle_task_terminal
            [of plain_repr raising_process "''WorkerAgent1''" "()" ?hello silent_env empty_world]
          q_hello
    by (simp add: raising_process_def)
  have 4: "state (status (fst (handle_task plain_repr answering_process ''WorkerAgent1'' () ?malformed)))
             = FAILED"
    using handle_task_terminal
            [of plain_repr answering_process "''WorkerAgent1''" "()" ?malformed silent_env empty_world]
          q_malformed
    by simp
  have 5: "state (status (fst (manager_handle_task silent_env empty_world ?empty))) = INPUT_REQUIRED"
    using handle_task_terminal
            [of plain_repr answering_process "''WorkerAgent1''" "()" ?empty silent_env empty_world]
          q_empty
    by (simp add: repr)
  have 6: "artifacts (fst (manager_handle_task silent_env empty_world ?hello))
             = [text_artifact no_results_text]"
    using handle_task_terminal
            [of plain_repr answering_process "''WorkerAgent1''" "()" ?hello silent_env empty_world]
          q_hello answer
    by (simp add: repr)
  have 7: "state (status (fst (manager_handle_task silent_env empty_world ?malformed))) = FAILED"
    using handle_task_terminal
            [of plain_repr answering_process "''WorkerAgent1''" "()" ?malformed silent_env empty_world]
          q_malformed
    by (simp add: repr)
  from 1 2 3 4 5 6 7 show ?thesis by blast
qed

subsection \<open>The worker's processing function\<close>

lemma ensure_mcp_initialized_fails:
  "mcp_client a = None \<Longrightarrow> get_mcp_config ae a = Inr cfg \<Longrightarrow> cfg \<noteq> [] \<Longrightarrow>
   mcp_get_tools ae cfg = Inl err \<Longrightarrow>
   ensure_mcp_initialized ae a = (Inr False, a\<lparr>mcp_client := Some cfg\<rparr>)"
  by (simp add: ensure_mcp_initialized_def)

lemma ensure_mcp_initialized_no_config:
  "mcp_client a = None \<Longrightarrow> get_mcp_config ae a = Inr [] \<Longrightarrow>
   ensure_mcp_initialized ae a = (Inr True, a)"
  by (simp add: ensure_mcp_initialized_def)

lemma ensure_mcp_initialized_tools:
  "mcp_client a = None \<Longrightarrow> get_mcp_config ae a = Inr cfg \<Longrightarrow> cfg \<noteq> [] \<Longrightarrow>
   mcp_get_tools ae cfg = Inr ts \<Longrightarrow>
   ensure_mcp_initialized ae a = (Inr True, a\<lparr>mcp_client := Some cfg, tools := ts\<rparr>)"
  by (simp add: ensure_mcp_initialized_def)

lemma ensure_mcp_initialized_raises:
  "mcp_client a = None \<Longrightarrow> get_mcp_config ae a = Inl err \<Longrightarrow>
   ensure_mcp_initialized ae a = (Inl err, a)"
  by (simp add: ensure_mcp_initialized_def)

text \<open>
  Claim C9. The worker's \<^verbatim>\<open>process_query\<close> returns a string on every query and never
  raises. When fetching the tools from the MCP servers fails, the string is
  \<^verbatim>\<open>Error: Failed to initialize MCP tools\<close>; when no tool is configured, or the servers
  offer none, it is \<^verbatim>\<open>Error: No tools available\<close>; an exception on the way is answered
  with \<^verbatim>\<open>Error processing query: \<close> and its text. The inherited task handler therefore
  ends in COMPLETED with that string as the artifact.
\<close>

theorem process_query_degraded:
  "(\<forall>cfg err. mcp_client a = None \<and> get_mcp_config ae a = Inr cfg \<and> cfg \<noteq> [] \<and>
      mcp_get_tools ae cfg = Inl err \<longrightarrow>
      fst (process_query ae a query) = ''Error: Failed to initialize MCP tools'') \<and>
   (mcp_client a = None \<and> get_mcp_config ae a = Inr [] \<and> tools a = [] \<longrightarrow>
      fst (process_query ae a query) = ''Error: No tools available'') \<and>
   (\<forall>cfg. mcp_client a = None \<and> get_mcp_config ae a = Inr cfg \<and> cfg \<noteq> [] \<and>
      mcp_get_tools ae cfg = Inr [] \<longrightarrow>
      fst (process_query ae a query) = ''Error: No tools available'') \<and>
   (\<forall>err. mcp_client a = None \<and> get_mcp_config ae a = Inl err \<longrightarrow>
      fst (process_query ae a query) = ''Error processing query: '' @ str_exn err) \<and>
   (\<forall>q. extract_query repr (message t) = Inr q \<and> py_truthy q \<longrightarrow>
      state (status (fst (handle_task repr (worker_process_query ae) (agent_name a) a t)))
        = COMPLETED \<and>
      artifacts (fst (handle_task repr (worker_process_query ae) (agent_name a) a t))
        = [text_artifact (fst (process_query ae a q))])"
proof (intro conjI allI impI)
  fix cfg err
  assume "mcp_client a = None \<and> get_mcp_config ae a = Inr cfg \<and> cfg \<noteq> [] \<and>
      mcp_get_tools ae cfg = Inl err"
  then show "fst (process_query ae a query) = ''Error: Failed to initialize MCP tools''"
    by (simp add: process_query_def run_react_agent_def ensure_mcp_initialized_fails)
next
  assume "mcp_client a = None \<and> get_mcp_config ae a = Inr [] \<and> tools a = []"
  then show "fst (process_query ae a query) = ''Error: No tools available''"
    by (simp add: process_query_def run_react_agent_def ensure_mcp_initialized_no_config)
next
  fix cfg
  assume "mcp_client a = None \<and> get_mcp_config ae a = Inr cfg \<and> cfg \<noteq> [] \<and>
      mcp_get_tools ae cfg = Inr []"
  then show "fst (process_query ae a query) = ''Error: No tools available''"
    by (simp add: process_query_def run_react_agent_def ensure_mcp_initialized_tools)
next
  fix err
  assume "mcp_client a = None \<and> get_mcp_config ae a = Inl err"
  then show "fst (process_query ae a query) = ''Error processing query: '' @ str_exn err"
    by (simp add: process_query_def run_react_agent_def ensure_mcp_initialized_raises)
next
  fix q
  assume h: "extract_query repr (message t) = Inr q \<and> py_truthy q"
  obtain res a' where p: "process_query ae a q = (res, a')" by (cases "process_query ae a q") auto
  with h show "state (status (fst (handle_task repr (worker_process_query ae) (agent_name a) a t)))
        = COMPLETED"
    and "artifacts (fst (handle_task repr (worker_process_query ae) (agent_name a) a t))
        = [text_artifact (fst (process_query ae a q))]"
    by (simp_all add: handle_task_def worker_process_query_def Let_def)
qed

theorem process_query_degraded_witness:
  "fst (process_query (scripted_agent_env (\<lambda>n. Inr tool_1_url) (\<lambda>cfg. Inl (PyError ''refused'')))
          worker_agent_1_init (JString ''q''))
     = ''Error: Failed to initialize MCP tools'' \<and>
   fst (process_query (scripted_agent_env (\<lambda>n. Inr []) (\<lambda>cfg. Inl (PyError ''refused'')))
          worker_agent_1_init (JString ''q''))
     = ''Error: No tools available'' \<and>
   fst (process_query (scripted_agent_env (\<lambda>n. Inr tool_1_url) (\<lambda>cfg. Inr []))
          worker_agent_1_init (JString ''q''))
     = ''Error: No tools available'' \<and>
   fst (process_query (scripted_agent_env (\<lambda>n. Inl (PyError ''registry unreadable'')) (\<lambda>cfg. Inr []))
          worker_agent_1_init (JString ''q''))
     = ''Error processing query: registry unreadable'' \<and>
   state (status (fst (handle_task plain_repr
                         (worker_process_query
                            (scripted_agent_env (\<lambda>n. Inr tool_1_url) (\<lambda>cfg. Inl (PyError ''refused''))))
                         ''WorkerAgent1'' worker_agent_1_init
                         (inbound_task (text_message (JString ''q''))))))
     = COMPLETED \<and>
   artifacts (fst (handle_task plain_repr
                     (worker_process_query
                        (scripted_agent_env (\<lambda>n. Inr tool_1_url) (\<lambda>cfg. Inl (PyError ''refused''))))
                     ''WorkerAgent1'' worker_agent_1_init
                     (inbound_task (text_message (JString ''q'')))))
     = [text_artifact ''Error: Failed to initialize MCP tools'']"
proof -
  let ?refused = "scripted_agent_env (\<lambda>n. Inr tool_1_url) (\<lambda>cfg. Inl (PyError ''refused''))"
  let ?unconfigured = "scripted_agent_env (\<lambda>n. Inr []) (\<lambda>cfg. Inl (PyError ''refused''))"
  let ?toolless = "scripted_agent_env (\<lambda>n. Inr tool_1_url) (\<lambda>cfg. Inr [])"
  let ?unreadable = "scripted_agent_env (\<lambda>n. Inl (PyError ''registry unreadable'')) (\<lambda>cfg. Inr [])"
  let ?t = "inbound_task (text_message (JString ''q''))"
  let ?cfg = "[(''tool_1'', tool_1_url)]"
  have name: "agent_name worker_agent_1_init = ''WorkerAgent1''"
    by (simp add: worker_agent_1_init_def)
  have h1: "mcp_client worker_agent_1_init = None \<and>
            get_mcp_config ?refused worker_agent_1_init = Inr ?cfg \<and> ?cfg \<noteq> [] \<and>
            mcp_get_tools ?refused ?cfg = Inl (PyError ''refused'')"
    by (simp add: worker_agent_1_init_def get_mcp_config_def scripted_agent_env_def tool_1_url_def)
  have h2: "mcp_client worker_agent_1_init = None \<and>
            get_mcp_config ?unconfigured worker_agent_1_init = Inr [] \<and>
            tools worker_agent_1_init = []"
    by (simp add: worker_agent_1_init_def get_mcp_config_def scripted_agent_env_def)
  have h3: "mcp_client worker_agent_1_init = None \<and>
            get_mcp_config ?toolless worker_agent_1_init = Inr ?cfg \<and> ?cfg \<noteq> [] \<and>
            mcp_get_tools ?toolless ?cfg = Inr []"
    by (simp add: worker_agent_1_init_def get_mcp_config_def scripted_agent_env_def tool_1_url_def)
  have h4: "mcp_client worker_agent_1_init = None \<and>
            get_mcp_config ?unreadable worker_agent_1_init = Inl (PyError ''registry unreadable'')"
    by (simp add: worker_agent_1_init_def get_mcp_config_def scripted_agent_env_def)
  have h5: "extract_query plain_repr (message ?t) = Inr (JString ''q'') \<and> py_truthy (JString ''q'')"
    by (simp add: extract_query_def inbound_task_def text_message_def)
  have 1: "fst (process_query ?refused worker_agent_1_init (JString ''q''))
             = ''Error: Failed to initialize MCP tools''"
    using process_query_degraded [of worker_agent_1_init ?refused "JString ''q''" plain_repr ?t] h1
    by blast
  have 2: "fst (process_query ?unconfigured worker_agent_1_init (JString ''q''))
             = ''Error: No tools available''"
    using process_query_degraded [of worker_agent_1_init ?unconfigured "JString ''q''" plain_repr ?t] h2
    by blast
  have 3: "fst (process_query ?toolless worker_agent_1_init (JString ''q''))
             = ''Error: No tools available''"
    using process_query_degraded [of worker_agent_1_init ?toolless "JString ''q''" plain_repr ?t] h3
    by blast
  have 4: "fst (process_query ?unreadable worker_agent_1_init (JString ''q''))
             = ''Error processing query: registry unreadable''"
    using process_query_degraded [of worker_agent_1_init ?unreadable "JString ''q''" plain_repr ?t] h4
    by fastforce
  have 5: "state (status (fst (handle_task plain_repr (worker_process_query ?refused)
                                 (agent_name worker_agent_1_init) worker_agent_1_init ?t)))
             = COMPLETED \<and>
           artifacts (fst (handle_task plain_repr (worker_process_query ?refused)
                             (agent_name worker_agent_1_init) worker_agent_1_init ?t))
             = [text_artifact (fst (process_query ?refused worker_agent_1_init (JString ''q'')))]"
    using process_query_degraded [of worker_agent_1_init ?refused "JString ''q''" plain_repr ?t] h5
    by blast
  from 1 2 3 4 5 show ?thesis by (simp add: name)
qed

subsection \<open>Environments that differ in the language model only\<close>

lemma call_worker_env:
  "http_reply e1 = http_reply e2 \<Longrightarrow> call_worker e1 w url query = call_worker e2 w url query"
  by (simp add: call_worker_def session_post_def)

lemma agent_map_env:
  "worker_agent_1_url e1 = worker_agent_1_url e2 \<Longrightarrow>
   worker_agent_2_url e1 = worker_agent_2_url e2 \<Longrightarrow>
   agent_map e1 = agent_map e2"
  by (simp add: agent_map_def)

lemma resolve_agent_env:
  assumes "worker_agent_1_url e1 = worker_agent_1_url e2"
    and "worker_agent_2_url e1 = worker_agent_2_url e2"
  shows "resolve_agent e1 a = resolve_agent e2 a"
  unfolding resolve_agent_def by (simp only: agent_map_env [OF assms])

lemma parallel_targets_env:
  assumes "worker_agent_1_url e1 = worker_agent_1_url e2"
    and "worker_agent_2_url e1 = worker_agent_2_url e2"
  shows "parallel_targets e1 names = parallel_targets e2 names"
proof (induction names)
  case Nil
  show ?case by simp
next
  case (Cons a names)
  show ?case
    by (simp only: parallel_targets.simps resolve_agent_env [OF assms] Cons.IH)
qed

lemma execute_sequential_env:
  assumes "http_reply e1 = http_reply e2"
    and "worker_agent_1_url e1 = worker_agent_1_url e2"
    and "worker_agent_2_url e1 = worker_agent_2_url e2"
  shows "execute_sequential e1 w query names results = execute_sequential e2 w query names results"
proof (induction names arbitrary: w results)
  case Nil
  show ?case by simp
next
  case (Cons a names)
  show ?case
    by (simp only: execute_sequential.simps resolve_agent_env [OF assms(2,3)]
        call_worker_env [OF assms(1)] Cons.IH)
qed

lemma call_worker_task_env:
  assumes "http_reply e1 = http_reply e2"
  shows "call_worker_task e1 query = call_worker_task e2 query"
  by (intro ext) (simp only: call_worker_task_def call_worker_env [OF assms])

lemma gather_env:
  "completion_order e1 = completion_order e2 \<Longrightarrow> gather e1 tasks w = gather e2 tasks w"
  by (simp add: gather_def)

lemma execute_plan_env:
  assumes "http_reply e1 = http_reply e2"
    and "worker_agent_1_url e1 = worker_agent_1_url e2"
    and "worker_agent_2_url e1 = worker_agent_2_url e2"
    and "completion_order e1 = completion_order e2"
  shows "execute_plan e1 w query plan = execute_plan e2 w query plan"
  unfolding execute_plan_def
  by (simp only: parallel_targets_env [OF assms(2,3)] execute_sequential_env [OF assms(1,2,3)]
      call_worker_task_env [OF assms(1)] gather_env [OF assms(4)])

lemma ainvoke_env:
  assumes "\<And>h p. llm_reply e1 h n p = llm_reply e2 h n p"
  shows "ainvoke e1 w n prompt = ainvoke e2 w n prompt"
  by (simp only: ainvoke_def assms)

lemma create_llm_env:
  assumes "client_error e1 = client_error e2"
  shows "create_llm e1 n = create_llm e2 n"
  by (simp only: create_llm_def assms)

lemma plan_prompt_env:
  assumes "py_repr e1 = py_repr e2"
  shows "plan_prompt e1 query = plan_prompt e2 query"
  by (simp only: plan_prompt_def assms)

lemma synthesis_prompt_env:
  assumes "py_repr e1 = py_repr e2"
  shows "synthesis_prompt e1 query texts = synthesis_prompt e2 query texts"
  by (simp only: synthesis_prompt_def assms)

lemma plan_execution_env:
  assumes "\<And>h p. llm_reply e1 h 500 p = llm_reply e2 h 500 p"
    and "json_loads e1 = json_loads e2" and "py_repr e1 = py_repr e2"
    and "client_error e1 = client_error e2"
  shows "plan_execution e1 w query = plan_execution e2 w query"
proof (cases "client_error e2 500")
  case None
  then have c: "create_llm e1 500 = Inr 500" "create_llm e2 500 = Inr 500"
    by (simp_all add: create_llm_cases assms(4))
  show ?thesis
    unfolding plan_execution_def c
    by (simp only: sum.case Let_def ainvoke_env [of e1 500 e2, OF assms(1)]
        plan_prompt_env [OF assms(3)] assms(2))
next
  case (Some err)
  then have c: "create_llm e1 500 = Inl err" "create_llm e2 500 = Inl err"
    by (simp_all add: create_llm_cases assms(4))
  show ?thesis
    unfolding plan_execution_def c by (simp only: sum.case)
qed

lemma synthesize_results_env:
  assumes "\<And>h p. llm_reply e1 h 2000 p = llm_reply e2 h 2000 p"
    and "py_repr e1 = py_repr e2"
    and "client_error e1 = client_error e2"
  shows "synthesize_results e1 w query results = synthesize_results e2 w query results"
proof (cases "client_error e2 2000")
  case None
  then have c: "create_llm e1 2000 = Inr 2000" "create_llm e2 2000 = Inr 2000"
    by (simp_all add: create_llm_cases assms(3))
  show ?thesis
    unfolding synthesize_results_def c
    by (simp only: sum.case Let_def ainvoke_env [of e1 2000 e2, OF assms(1)]
        synthesis_prompt_env [OF assms(2)] assms(2))
next
  case (Some err)
  then have c: "create_llm e1 2000 = Inl err" "create_llm e2 2000 = Inl err"
    by (simp_all add: create_llm_cases assms(3))
  show ?thesis
    unfolding synthesize_results_def c by (simp only: sum.case)
qed

lemma classify_complexity_world:
  "snd (classify_complexity e w query)
     = (case client_error e 100 of
          Some err \<Rightarrow> w
        | None \<Rightarrow> w\<lparr>llm_calls := llm_calls w @ [(100, classify_prompt e query)]\<rparr>)"
  by (simp add: classify_complexity_def ainvoke_def create_llm_cases Let_def
      split: sum.splits option.splits)

lemma analyze_legal_query_unfold:
  "analyze_legal_query e w query =
     (let w1 = snd (classify_complexity e w query);
          complexity = fst (classify_complexity e w query);
          pl = plan_execution e w1 query;
          ex = execute_plan e (snd pl) query (fst pl);
          evs = [(''ManagerAgent'', ''QUERY_RECEIVED'', JObject [(''query'', query)]),
                 (''ManagerAgent'', ''COMPLEXITY_CLASSIFIED'',
                  JObject [(''complexity'', JString (complexity_value complexity))]),
                 (''ManagerAgent'', ''PLAN_CREATED'', fst pl)]
      in case fst ex of
           Inl err \<Rightarrow>
             (''Analysis error: '' @ str_exn err, snd ex,
              evs @ [(''ManagerAgent'', ''ERROR'',
                      JObject [(''error'', JString (''Analysis error: '' @ str_exn err))])])
         | Inr results \<Rightarrow>
             (let sy = synthesize_results e (snd ex) query results
              in (fst sy, snd sy,
                  evs @ [(''ManagerAgent'', ''EXECUTION_COMPLETE'',
                          JObject [(''result_count'', JInt (int (length results))),
                                   (''worker_results'', JArray (map result_to_json results))]),
                         (''ManagerAgent'', ''SYNTHESIS_COMPLETE'',
                          JObject [(''preview'', JString (preview (fst sy))),
                                   (''full_result'', JString (fst sy))])])))"
  by (simp add: analyze_legal_query_def Let_def split: prod.splits sum.splits)

text \<open>
  Claim C10. The answer of \<^verbatim>\<open>analyze_legal_query\<close>, and the calls it makes, do not depend
  on what the classifier's language model replies: replace the replies to the client
  with the classifier's token limit by any others, and the answer and the record of calls
  stay the same. The class is written to the audit trail as the second event and is
  read by nothing else.
\<close>

theorem classification_not_read:
  "fst (analyze_legal_query
          (e\<lparr>llm_reply := (\<lambda>h n p. if n = 100 then other h p else llm_reply e h n p)\<rparr>) w query)
     = fst (analyze_legal_query e w query) \<and>
   fst (snd (analyze_legal_query
               (e\<lparr>llm_reply := (\<lambda>h n p. if n = 100 then other h p else llm_reply e h n p)\<rparr>) w query))
     = fst (snd (analyze_legal_query e w query)) \<and>
   snd (snd (analyze_legal_query e w query)) ! 1
     = (''ManagerAgent'', ''COMPLEXITY_CLASSIFIED'',
        JObject [(''complexity'', JString (complexity_value (fst (classify_complexity e w query))))])"
proof -
  define e' where "e' = e\<lparr>llm_reply := (\<lambda>h n p. if n = 100 then other h p else llm_reply e h n p)\<rparr>"
  have prompt: "classify_prompt e' query = classify_prompt e query"
    by (simp add: e'_def classify_prompt_def)
  have build: "client_error e' = client_error e"
    by (simp add: e'_def)
  have w1: "snd (classify_complexity e' w query) = snd (classify_complexity e w query)"
    by (simp only: classify_complexity_world prompt build)
  have pl: "plan_execution e' w1 query = plan_execution e w1 query" for w1
    by (rule plan_execution_env) (simp_all add: e'_def)
  have ex: "execute_plan e' w2 query plan = execute_plan e w2 query plan" for w2 plan
    by (rule execute_plan_env) (simp_all add: e'_def)
  have sy: "synthesize_results e' w3 query results = synthesize_results e w3 query results"
    for w3 results
    by (rule synthesize_results_env) (simp_all add: e'_def)
  have "fst (analyze_legal_query e' w query) = fst (analyze_legal_query e w query) \<and>
        fst (snd (analyze_legal_query e' w query)) = fst (snd (analyze_legal_query e w query))"
    unfolding analyze_legal_query_unfold [of e'] analyze_legal_query_unfold [of e]
    by (simp add: w1 pl ex sy Let_def split: sum.splits)
  moreover have "snd (snd (analyze_legal_query e w query)) ! 1
     = (''ManagerAgent'', ''COMPLEXITY_CLASSIFIED'',
        JObject [(''complexity'', JString (complexity_value (fst (classify_complexity e w query))))])"
    unfolding analyze_legal_query_unfold [of e]
    by (simp add: Let_def split: sum.splits)
  ultimately show ?thesis unfolding e'_def by simp
qed

subsection \<open>Plan execution\<close>

lemma task_order_set: "set (task_order order n) = {0..<n}"
  by (auto simp: task_order_def Let_def)

lemma task_order_distinct: "distinct (task_order order n)"
  by (auto simp: task_order_def Let_def)

lemma call_worker_except_agent_url: "agent_url (call_worker_except url err) = Some url"
  by (cases err) (simp_all add: call_failed_def)

lemma call_worker_agent_url: "agent_url (fst (call_worker e w url query)) = Some url"
  by (cases "http_reply e (http_calls w) (url @ ''/task'') (task_payload query)")
     (auto simp: call_worker_def session_post_def call_succeeded_def call_failed_def
       call_worker_except_agent_url split: sum.splits)

lemma call_worker_http_calls:
  "http_calls (snd (call_worker e w url query))
     = http_calls w @ [(url @ ''/task'', task_payload query)]"
  by (cases "http_reply e (http_calls w) (url @ ''/task'') (task_payload query)")
     (auto simp: call_worker_def session_post_def split: sum.splits)

lemma resolve_agent_name: "resolve_agent e (JString name) = Inr (map_of (agent_map e) name)"
  by (simp add: resolve_agent_def)

lemma parallel_targets_names:
  "parallel_targets e (map JString names) = Inr (List.map_filter (map_of (agent_map e)) names)"
  by (induction names) (auto simp: resolve_agent_name List.map_filter_simps split: option.splits)

lemma execute_sequential_names:
  "\<exists>rs w'. execute_sequential e w query (map JString names) acc = (Inr (acc @ rs), w') \<and>
     map agent_url rs = map Some (List.map_filter (map_of (agent_map e)) names) \<and>
     http_calls w' = http_calls w @
       map (\<lambda>url. (url @ ''/task'', task_payload query))
         (List.map_filter (map_of (agent_map e)) names)"
proof (induction names arbitrary: w acc)
  case Nil
  show ?case by (simp add: List.map_filter_simps)
next
  case (Cons name names)
  show ?case
  proof (cases "map_of (agent_map e) name")
    case None
    then show ?thesis
      using Cons.IH [of w acc] by (simp add: resolve_agent_name List.map_filter_simps)
  next
    case (Some url)
    obtain r w1 where c: "call_worker e w url query = (r, w1)" by (cases "call_worker e w url query") auto
    have r: "agent_url r = Some url" using call_worker_agent_url [of e w url query] c by simp
    have w1: "http_calls w1 = http_calls w @ [(url @ ''/task'', task_payload query)]"
      using call_worker_http_calls [of e w url query] c by simp
    obtain rs w' where ih:
      "execute_sequential e w1 query (map JString names) (acc @ [r]) = (Inr ((acc @ [r]) @ rs), w')"
      "map agent_url rs = map Some (List.map_filter (map_of (agent_map e)) names)"
      "http_calls w' = http_calls w1 @
         map (\<lambda>url. (url @ ''/task'', task_payload query))
           (List.map_filter (map_of (agent_map e)) names)"
      using Cons.IH [of w1 "acc @ [r]"] by blast
    have "execute_sequential e w query (map JString (name # names)) acc = (Inr (acc @ (r # rs)), w')"
      using Some c ih(1) by (simp add: resolve_agent_name)
    moreover have "map agent_url (r # rs)
        = map Some (List.map_filter (map_of (agent_map e)) (name # names))"
      using Some r ih(2) by (simp add: List.map_filter_simps)
    moreover have "http_calls w' = http_calls w @
         map (\<lambda>url. (url @ ''/task'', task_payload query))
           (List.map_filter (map_of (agent_map e)) (name # names))"
      using Some w1 ih(3) by (simp add: List.map_filter_simps)
    ultimately show ?thesis by blast
  qed
qed

lemma call_worker_task_eq:
  "call_worker_task e query url w
     = (Inr (fst (call_worker e w url query)), snd (call_worker e w url query))"
  by (simp add: call_worker_task_def split_beta)

lemma run_tasks_step:
  "run_tasks tasks (i # order) w
     = ((i, fst ((tasks ! i) w)) # fst (run_tasks tasks order (snd ((tasks ! i) w))),
        snd (run_tasks tasks order (snd ((tasks ! i) w))))"
  by (simp add: split_beta Let_def)

lemma run_tasks_indices: "map fst (fst (run_tasks tasks order w)) = order"
proof (induction order arbitrary: w)
  case Nil
  show ?case by simp
next
  case (Cons i order)
  show ?case unfolding run_tasks_step by (simp add: Cons.IH)
qed

lemma run_tasks_results:
  assumes "\<forall>i\<in>set order. i < length urls"
    and "(j, x) \<in> set (fst (run_tasks (map (call_worker_task e query) urls) order w))"
  shows "\<exists>wr. x = Inr wr \<and> agent_url wr = Some (urls ! j)"
  using assms
proof (induction order arbitrary: w)
  case Nil
  then show ?case by simp
next
  case (Cons i order)
  from Cons.prems(1) have i: "i < length urls" and rest: "\<forall>k\<in>set order. k < length urls"
    by simp_all
  let ?tasks = "map (call_worker_task e query) urls"
  from Cons.prems(2) consider
      "(j, x) = (i, fst ((?tasks ! i) w))"
    | "(j, x) \<in> set (fst (run_tasks ?tasks order (snd ((?tasks ! i) w))))"
    unfolding run_tasks_step by auto
  then show ?case
  proof cases
    case 1
    then have "j = i" and "x = Inr (fst (call_worker e w (urls ! i) query))"
      using i by (simp_all add: call_worker_task_eq)
    then show ?thesis by (simp add: call_worker_agent_url)
  next
    case 2
    then show ?thesis by (rule Cons.IH [OF rest])
  qed
qed

lemma run_tasks_http_calls:
  assumes "\<forall>i\<in>set order. i < length urls"
  shows "http_calls (snd (run_tasks (map (call_worker_task e query) urls) order w))
           = http_calls w @ map (\<lambda>i. (urls ! i @ ''/task'', task_payload query)) order"
  using assms
proof (induction order arbitrary: w)
  case Nil
  show ?case by simp
next
  case (Cons i order)
  from Cons.prems have i: "i < length urls" and rest: "\<forall>k\<in>set order. k < length urls"
    by simp_all
  show ?case
    unfolding run_tasks_step
    using i by (simp add: Cons.IH [OF rest] call_worker_task_eq call_worker_http_calls)
qed

lemma gather_calls:
  "map agent_url (map gathered_result (fst (gather e (map (call_worker_task e query) urls) w)))
     = map Some urls \<and>
   http_calls (snd (gather e (map (call_worker_task e query) urls) w))
     = http_calls w @
       map (\<lambda>i. (urls ! i @ ''/task'', task_payload query))
         (task_order (completion_order e) (length urls))"
proof
  let ?tasks = "map (call_worker_task e query) urls"
  let ?order = "task_order (completion_order e) (length urls)"
  let ?finished = "fst (run_tasks ?tasks ?order w)"
  have bound: "\<forall>i\<in>set ?order. i < length urls" by (simp add: task_order_set)
  have results: "fst (gather e ?tasks w)
      = map (\<lambda>i. case map_of ?finished i of Some r \<Rightarrow> r | None \<Rightarrow> Inl (PyError ''CancelledError''))
          [0..<length urls]"
    by (simp add: gather_def split_beta Let_def)
  show "map agent_url (map gathered_result (fst (gather e ?tasks w))) = map Some urls"
  proof (rule nth_equalityI)
    show "length (map agent_url (map gathered_result (fst (gather e ?tasks w))))
            = length (map Some urls)"
      by (simp add: results)
  next
    fix i
    assume "i < length (map agent_url (map gathered_result (fst (gather e ?tasks w))))"
    then have i: "i < length urls" by (simp add: results)
    then have "i \<in> set (map fst ?finished)"
      unfolding run_tasks_indices by (simp add: task_order_set)
    then have "map_of ?finished i \<noteq> None" by (simp add: map_of_eq_None_iff)
    then obtain r where m: "map_of ?finished i = Some r" by auto
    then have "(i, r) \<in> set ?finished" by (rule map_of_SomeD)
    from run_tasks_results [OF bound this]
    obtain wr where "r = Inr wr" and "agent_url wr = Some (urls ! i)" by blast
    with m i show "map agent_url (map gathered_result (fst (gather e ?tasks w))) ! i
                     = map Some urls ! i"
      by (simp add: results)
  qed
  show "http_calls (snd (gather e ?tasks w))
     = http_calls w @ map (\<lambda>i. (urls ! i @ ''/task'', task_payload query)) ?order"
    using run_tasks_http_calls [OF bound, of e query w] by (simp add: gather_def split_beta Let_def)
qed

lemma map_filter_Some:
  "map Some (List.map_filter f xs) = map f (filter (\<lambda>x. f x \<noteq> None) xs)"
  by (induction xs) (auto simp: List.map_filter_simps split: option.splits)

lemma execute_plan_parallel:
  assumes "dict_get plan ''agents'' (JArray []) = Inr (JArray (map JString names))"
    and "dict_get plan ''parallel'' (JBool False) = Inr par"
    and "py_truthy par"
  shows "execute_plan e w query plan
           = (Inr (map gathered_result
                     (fst (gather e (map (call_worker_task e query)
                                       (List.map_filter (map_of (agent_map e)) names)) w))),
              snd (gather e (map (call_worker_task e query)
                               (List.map_filter (map_of (agent_map e)) names)) w))"
  using assms by (simp add: execute_plan_def parallel_targets_names split_beta)

lemma execute_plan_sequential:
  assumes "dict_get plan ''agents'' (JArray []) = Inr (JArray (map JString names))"
    and "dict_get plan ''parallel'' (JBool False) = Inr par"
    and "\<not> py_truthy par"
  shows "execute_plan e w query plan = execute_sequential e w query (map JString names) []"
  using assms by (simp add: execute_plan_def)

lemma dict_get_parallel:
  assumes "dict_get plan ''agents'' (JArray []) = Inr agents"
  shows "\<exists>par. dict_get plan ''parallel'' (JBool False) = Inr par"
  using assms by (cases plan) simp_all

lemma execute_plan_wellformed:
  assumes "dict_get plan ''agents'' (JArray []) = Inr (JArray (map JString names))"
    and "dict_get plan ''parallel'' (JBool False) = Inr par"
  shows "\<exists>results w'.
           execute_plan e w query plan = (Inr results, w') \<and>
           map agent_url results = map Some (List.map_filter (map_of (agent_map e)) names) \<and>
           http_calls w' = http_calls w @
             map (\<lambda>i. (List.map_filter (map_of (agent_map e)) names ! i @ ''/task'', task_payload query))
               (if py_truthy par
                then task_order (completion_order e)
                       (length (List.map_filter (map_of (agent_map e)) names))
                else [0..<length (List.map_filter (map_of (agent_map e)) names)])"
proof (cases "py_truthy par")
  case True
  show ?thesis
    unfolding execute_plan_parallel [OF assms True]
    using gather_calls [of e query "List.map_filter (map_of (agent_map e)) names" w] True
    by simp
next
  case False
  let ?urls = "List.map_filter (map_of (agent_map e)) names"
  obtain rs w' where s:
    "execute_sequential e w query (map JString names) [] = (Inr ([] @ rs), w')"
    "map agent_url rs = map Some ?urls"
    "http_calls w' = http_calls w @ map (\<lambda>url. (url @ ''/task'', task_payload query)) ?urls"
    using execute_sequential_names [of e w query names "[]"] by blast
  have "map (\<lambda>url. (url @ ''/task'', task_payload query)) ?urls
          = map (\<lambda>i. (?urls ! i @ ''/task'', task_payload query)) [0..<length ?urls]"
    by (rule nth_equalityI) simp_all
  with s False show ?thesis
    unfolding execute_plan_sequential [OF assms False] by simp
qed

lemma call_worker_world:
  "snd (call_worker e w url query) = w\<lparr>http_calls := http_calls w @ [request_to query url]\<rparr>"
  by (cases "http_reply e (http_calls w) (url @ ''/task'') (task_payload query)")
     (auto simp: call_worker_def session_post_def request_to_def split: sum.splits)

lemma takeWhile_upt_neq: "i < n \<Longrightarrow> takeWhile (\<lambda>k. k \<noteq> i) [0..<n] = [0..<i]"
proof -
  assume i: "i < n"
  then have "[0..<n] = [0..<i] @ i # [Suc i..<n]"
    by (metis less_imp_le_nat upt_add_eq_append upt_conv_Cons le0 le_add_diff_inverse plus_nat.add_0)
  moreover have "takeWhile (\<lambda>k. k \<noteq> i) ([0..<i] @ i # [Suc i..<n]) = [0..<i]"
    using takeWhile_append2 [of "[0..<i]" "\<lambda>k. k \<noteq> i" "i # [Suc i..<n]"] by auto
  ultimately show ?thesis by simp
qed

lemma map_nth_upt_take: "i \<le> length xs \<Longrightarrow> map (\<lambda>j. f (xs ! j)) [0..<i] = map f (take i xs)"
  by (rule nth_equalityI) simp_all

lemma run_tasks_contents:
  assumes "\<forall>i\<in>set order. i < length urls"
    and "distinct order"
    and "(j, x) \<in> set (fst (run_tasks (map (call_worker_task e query) urls) order w))"
  shows "x = Inr (fst (call_worker e
                        (w\<lparr>http_calls := http_calls w @
                             map (\<lambda>k. request_to query (urls ! k)) (takeWhile (\<lambda>k. k \<noteq> j) order)\<rparr>)
                        (urls ! j) query))"
  using assms
proof (induction order arbitrary: w)
  case Nil
  then show ?case by simp
next
  case (Cons i order)
  from Cons.prems(1) have i: "i < length urls" and rest: "\<forall>k\<in>set order. k < length urls"
    by simp_all
  from Cons.prems(2) have fresh: "i \<notin> set order" and d: "distinct order" by simp_all
  let ?tasks = "map (call_worker_task e query) urls"
  let ?w1 = "w\<lparr>http_calls := http_calls w @ [request_to query (urls ! i)]\<rparr>"
  have step: "(?tasks ! i) w = (Inr (fst (call_worker e w (urls ! i) query)), ?w1)"
    using i by (simp add: call_worker_task_eq call_worker_world)
  from Cons.prems(3) consider
      "(j, x) = (i, Inr (fst (call_worker e w (urls ! i) query)))"
    | "(j, x) \<in> set (fst (run_tasks ?tasks order ?w1))"
    unfolding run_tasks_step step by auto
  then show ?case
  proof cases
    case 1
    then show ?thesis by simp
  next
    case 2
    then have "j \<in> set (map fst (fst (run_tasks ?tasks order ?w1)))" by force
    then have "j \<in> set order" by (simp only: run_tasks_indices)
    with fresh have ne: "i \<noteq> j" by auto
    from Cons.IH [OF rest d 2] ne show ?thesis by simp
  qed
qed

lemma gather_contents:
  assumes "i < length urls"
  shows "fst (gather e (map (call_worker_task e query) urls) w) ! i
           = Inr (fst (call_worker e
                         (w\<lparr>http_calls := http_calls w @
                              map (\<lambda>k. request_to query (urls ! k))
                                (takeWhile (\<lambda>k. k \<noteq> i)
                                   (task_order (completion_order e) (length urls)))\<rparr>)
                         (urls ! i) query))"
proof -
  let ?tasks = "map (call_worker_task e query) urls"
  let ?order = "task_order (completion_order e) (length urls)"
  let ?finished = "fst (run_tasks ?tasks ?order w)"
  have bound: "\<forall>i\<in>set ?order. i < length urls" by (simp add: task_order_set)
  have "i \<in> set (map fst ?finished)"
    unfolding run_tasks_indices using assms by (simp add: task_order_set)
  then have "map_of ?finished i \<noteq> None" by (simp add: map_of_eq_None_iff)
  then obtain r where m: "map_of ?finished i = Some r" by auto
  then have "(i, r) \<in> set ?finished" by (rule map_of_SomeD)
  from run_tasks_contents [OF bound task_order_distinct this]
  have "r = Inr (fst (call_worker e
                         (w\<lparr>http_calls := http_calls w @
                              map (\<lambda>k. request_to query (urls ! k)) (takeWhile (\<lambda>k. k \<noteq> i) ?order)\<rparr>)
                         (urls ! i) query))" .
  with m assms show ?thesis by (simp add: gather_def split_beta Let_def)
qed

lemma execute_sequential_contents:
  "\<exists>rs w'.
     execute_sequential e w query (map JString names) acc = (Inr (acc @ rs), w') \<and>
     length rs = length (resolved_urls e names) \<and>
     (\<forall>i<length (resolved_urls e names).
        rs ! i = fst (call_worker e
                        (w\<lparr>http_calls := http_calls w @
                             map (request_to query) (take i (resolved_urls e names))\<rparr>)
                        (resolved_urls e names ! i) query))"
proof (induction names arbitrary: w acc)
  case Nil
  show ?case by (simp add: resolved_urls_def List.map_filter_simps)
next
  case (Cons name names)
  show ?case
  proof (cases "map_of (agent_map e) name")
    case None
    then have "resolved_urls e (name # names) = resolved_urls e names"
      by (simp add: resolved_urls_def List.map_filter_simps)
    moreover have "execute_sequential e w query (map JString (name # names)) acc
                     = execute_sequential e w query (map JString names) acc"
      using None by (simp add: resolve_agent_name)
    ultimately show ?thesis using Cons.IH [of w acc] by simp
  next
    case (Some url)
    let ?r = "fst (call_worker e w url query)"
    let ?w1 = "w\<lparr>http_calls := http_calls w @ [request_to query url]\<rparr>"
    let ?urls = "resolved_urls e names"
    have urls: "resolved_urls e (name # names) = url # ?urls"
      using Some by (simp add: resolved_urls_def List.map_filter_simps)
    obtain rs w' where ih:
      "execute_sequential e ?w1 query (map JString names) (acc @ [?r]) = (Inr ((acc @ [?r]) @ rs), w')"
      "length rs = length ?urls"
      "\<forall>i<length ?urls.
         rs ! i = fst (call_worker e
                        (?w1\<lparr>http_calls := http_calls ?w1 @ map (request_to query) (take i ?urls)\<rparr>)
                        (?urls ! i) query)"
      using Cons.IH [of ?w1 "acc @ [?r]"] by blast
    have 1: "execute_sequential e w query (map JString (name # names)) acc
               = (Inr (acc @ (?r # rs)), w')"
      using Some ih(1) by (simp add: resolve_agent_name split_beta call_worker_world)
    have 2: "length (?r # rs) = length (resolved_urls e (name # names))"
      using ih(2) urls by simp
    have 3: "\<forall>i<length (resolved_urls e (name # names)).
        (?r # rs) ! i = fst (call_worker e
                        (w\<lparr>http_calls := http_calls w @
                             map (request_to query) (take i (resolved_urls e (name # names)))\<rparr>)
                        (resolved_urls e (name # names) ! i) query)"
    proof (intro allI impI)
      fix i
      assume "i < length (resolved_urls e (name # names))"
      then have i: "i < Suc (length ?urls)" using urls by simp
      show "(?r # rs) ! i = fst (call_worker e
                        (w\<lparr>http_calls := http_calls w @
                             map (request_to query) (take i (resolved_urls e (name # names)))\<rparr>)
                        (resolved_urls e (name # names) ! i) query)"
      proof (cases i)
        case 0
        then show ?thesis by (simp add: urls)
      next
        case (Suc k)
        with i have "k < length ?urls" by simp
        with ih(3) have "rs ! k = fst (call_worker e
                        (?w1\<lparr>http_calls := http_calls ?w1 @ map (request_to query) (take k ?urls)\<rparr>)
                        (?urls ! k) query)"
          by blast
        with Suc show ?thesis by (simp add: urls)
      qed
    qed
    from 1 2 3 show ?thesis by blast
  qed
qed

lemma gather_length: "length (fst (gather e tasks w)) = length tasks"
  by (simp add: gather_def split_beta Let_def)

lemma resolved_urls_known:
  "map Some (resolved_urls e names)
     = map (map_of (agent_map e)) (filter (\<lambda>n. map_of (agent_map e) n \<noteq> None) names)"
  by (simp only: resolved_urls_def map_filter_Some)

lemma execute_plan_contents:
  assumes "dict_get plan ''agents'' (JArray []) = Inr (JArray (map JString names))"
    and "dict_get plan ''parallel'' (JBool False) = Inr par"
  shows "\<exists>results.
           fst (execute_plan e w query plan) = Inr results \<and>
           length results = length (resolved_urls e names) \<and>
           (\<forall>i<length (resolved_urls e names).
              results ! i
                = fst (call_worker e
                         (w\<lparr>http_calls := http_calls w @
                              map (\<lambda>k. request_to query (resolved_urls e names ! k))
                                (takeWhile (\<lambda>k. k \<noteq> i)
                                   (call_order e par (length (resolved_urls e names))))\<rparr>)
                         (resolved_urls e names ! i) query))"
proof (cases "py_truthy par")
  case True
  let ?urls = "resolved_urls e names"
  let ?gathered = "fst (gather e (map (call_worker_task e query) ?urls) w)"
  have r: "fst (execute_plan e w query plan) = Inr (map gathered_result ?gathered)"
    unfolding execute_plan_parallel [OF assms True] by (simp add: resolved_urls_def)
  have l: "length (map gathered_result ?gathered) = length ?urls"
    by (simp add: gather_length)
  have c: "\<forall>i<length ?urls.
              map gathered_result ?gathered ! i
                = fst (call_worker e
                         (w\<lparr>http_calls := http_calls w @
                              map (\<lambda>k. request_to query (?urls ! k))
                                (takeWhile (\<lambda>k. k \<noteq> i) (call_order e par (length ?urls)))\<rparr>)
                         (?urls ! i) query)"
  proof (intro allI impI)
    fix i
    assume i: "i < length ?urls"
    then have "map gathered_result ?gathered ! i = gathered_result (?gathered ! i)"
      by (simp add: gather_length)
    also have "\<dots> = fst (call_worker e
                         (w\<lparr>http_calls := http_calls w @
                              map (\<lambda>k. request_to query (?urls ! k))
                                (takeWhile (\<lambda>k. k \<noteq> i)
                                   (task_order (completion_order e) (length ?urls)))\<rparr>)
                         (?urls ! i) query)"
      by (simp only: gather_contents [OF i] gathered_result.simps)
    finally show "map gathered_result ?gathered ! i
                = fst (call_worker e
                         (w\<lparr>http_calls := http_calls w @
                              map (\<lambda>k. request_to query (?urls ! k))
                                (takeWhile (\<lambda>k. k \<noteq> i) (call_order e par (length ?urls)))\<rparr>)
                         (?urls ! i) query)"
      using True by (simp add: call_order_def)
  qed
  from r l c show ?thesis by blast
next
  case False
  let ?urls = "resolved_urls e names"
  obtain rs w' where s:
    "execute_sequential e w query (map JString names) [] = (Inr ([] @ rs), w')"
    "length rs = length ?urls"
    "\<forall>i<length ?urls.
        rs ! i = fst (call_worker e
                        (w\<lparr>http_calls := http_calls w @ map (request_to query) (take i ?urls)\<rparr>)
                        (?urls ! i) query)"
    using execute_sequential_contents [of e w query names "[]"] by blast
  have r: "fst (execute_plan e w query plan) = Inr rs"
    unfolding execute_plan_sequential [OF assms False] using s(1) by simp
  have c: "\<forall>i<length ?urls.
              rs ! i
                = fst (call_worker e
                         (w\<lparr>http_calls := http_calls w @
                              map (\<lambda>k. request_to query (?urls ! k))
                                (takeWhile (\<lambda>k. k \<noteq> i) (call_order e par (length ?urls)))\<rparr>)
                         (?urls ! i) query)"
  proof (intro allI impI)
    fix i
    assume i: "i < length ?urls"
    have "map (\<lambda>k. request_to query (?urls ! k))
            (takeWhile (\<lambda>k. k \<noteq> i) (call_order e par (length ?urls)))
          = map (request_to query) (take i ?urls)"
      using False i by (simp add: call_order_def takeWhile_upt_neq map_nth_upt_take)
    with s(3) i show "rs ! i
                = fst (call_worker e
                         (w\<lparr>http_calls := http_calls w @
                              map (\<lambda>k. request_to query (?urls ! k))
                                (takeWhile (\<lambda>k. k \<noteq> i) (call_order e par (length ?urls)))\<rparr>)
                         (?urls ! i) query)"
      by simp
  qed
  from r s(2) c show ?thesis by blast
qed

lemma list_of_three: "length xs = 3 \<Longrightarrow> xs = [xs ! 0, xs ! 1, xs ! 2]"
  by (rule nth_equalityI) (auto simp: numeral_3_eq_3 less_Suc_eq numeral_2_eq_2)

text \<open>
  Claim C3. For a plan whose agents are a list of names, \<^verbatim>\<open>_execute_plan\<close> returns a list
  of results and raises nothing. The list has one entry for each name that the agent
  map knows, names it does not know are left out, and entry \<open>i\<close> is what \<^verbatim>\<open>_call_worker\<close>
  returned for the URL of the \<open>i\<close>-th known name of the plan, called after the requests of
  the calls that ran before it: the earlier names in sequential mode, the calls that
  completed earlier in parallel mode. This holds for every value of the plan's
  \<^verbatim>\<open>parallel\<close> flag and, in parallel mode, for every order in which the calls complete.
\<close>

theorem execute_plan_order:
  assumes "dict_get plan ''agents'' (JArray []) = Inr (JArray (map JString names))"
  shows "\<exists>results is_parallel.
           fst (execute_plan e w query plan) = Inr results \<and>
           dict_get plan ''parallel'' (JBool False) = Inr is_parallel \<and>
           length results = length (filter (\<lambda>n. map_of (agent_map e) n \<noteq> None) names) \<and>
           map agent_url results
             = map (map_of (agent_map e)) (filter (\<lambda>n. map_of (agent_map e) n \<noteq> None) names) \<and>
           map Some (resolved_urls e names)
             = map (map_of (agent_map e)) (filter (\<lambda>n. map_of (agent_map e) n \<noteq> None) names) \<and>
           (\<forall>i<length results.
              results ! i
                = fst (call_worker e
                         (w\<lparr>http_calls := http_calls w @
                              map (\<lambda>k. request_to query (resolved_urls e names ! k))
                                (takeWhile (\<lambda>k. k \<noteq> i)
                                   (call_order e is_parallel (length (resolved_urls e names))))\<rparr>)
                         (resolved_urls e names ! i) query))"
proof -
  obtain par where par: "dict_get plan ''parallel'' (JBool False) = Inr par"
    using dict_get_parallel [OF assms] by blast
  obtain results where r:
    "fst (execute_plan e w query plan) = Inr results"
    "length results = length (resolved_urls e names)"
    "\<forall>i<length (resolved_urls e names).
        results ! i
          = fst (call_worker e
                   (w\<lparr>http_calls := http_calls w @
                        map (\<lambda>k. request_to query (resolved_urls e names ! k))
                          (takeWhile (\<lambda>k. k \<noteq> i)
                             (call_order e par (length (resolved_urls e names))))\<rparr>)
                   (resolved_urls e names ! i) query)"
    using execute_plan_contents [OF assms par, of e w query] by blast
  have known: "map Some (resolved_urls e names)
        = map (map_of (agent_map e)) (filter (\<lambda>n. map_of (agent_map e) n \<noteq> None) names)"
    by (rule resolved_urls_known)
  then have "length (map Some (resolved_urls e names))
        = length (map (map_of (agent_map e)) (filter (\<lambda>n. map_of (agent_map e) n \<noteq> None) names))"
    by (rule arg_cong)
  then have len: "length results = length (filter (\<lambda>n. map_of (agent_map e) n \<noteq> None) names)"
    using r(2) by simp
  have "map agent_url results = map Some (resolved_urls e names)"
  proof (rule nth_equalityI)
    show "length (map agent_url results) = length (map Some (resolved_urls e names))"
      using r(2) by simp
  next
    fix i
    assume "i < length (map agent_url results)"
    then have i: "i < length (resolved_urls e names)" using r(2) by simp
    with r(3) have "agent_url (results ! i) = Some (resolved_urls e names ! i)"
      by (simp add: call_worker_agent_url)
    with i r(2) show "map agent_url results ! i = map Some (resolved_urls e names) ! i"
      by simp
  qed
  with known have urls: "map agent_url results
        = map (map_of (agent_map e)) (filter (\<lambda>n. map_of (agent_map e) n \<noteq> None) names)"
    by simp
  from r(1) par len urls known r(3) r(2) show ?thesis by auto
qed

theorem execute_plan_order_witness:
  "fst (execute_plan counting_env empty_world (JString ''q'') parallel_plan)
     = Inr [call_succeeded ''http://localhost:8102'' (worker_reply ''1''),
            call_failed ''http://localhost:8101'' ''Timeout'',
            call_succeeded ''http://localhost:8102'' (worker_reply ''0'')] \<and>
   fst (execute_plan counting_env empty_world (JString ''q'') sequential_plan)
     = Inr [call_succeeded ''http://localhost:8102'' (worker_reply ''0''),
            call_failed ''http://localhost:8101'' ''Timeout'',
            call_succeeded ''http://localhost:8102'' (worker_reply ''2'')]"
proof -
  let ?urls = "resolved_urls counting_env plan_names"
  let ?q = "JString ''q''"
  let ?call = "\<lambda>par i. fst (call_worker counting_env
                  (empty_world\<lparr>http_calls := http_calls empty_world @
                       map (\<lambda>k. request_to ?q (?urls ! k))
                         (takeWhile (\<lambda>k. k \<noteq> i) (call_order counting_env par (length ?urls)))\<rparr>)
                  (?urls ! i) ?q)"
  have known: "length (filter (\<lambda>n. map_of (agent_map counting_env) n \<noteq> None) plan_names) = 3"
    by code_simp
  have p0: "?call (JBool True) 0 = call_succeeded ''http://localhost:8102'' (worker_reply ''1'')"
    by code_simp
  have p1: "?call (JBool True) 1 = call_failed ''http://localhost:8101'' ''Timeout''"
    by code_simp
  have p2: "?call (JBool True) 2 = call_succeeded ''http://localhost:8102'' (worker_reply ''0'')"
    by code_simp
  have s0: "?call (JBool False) 0 = call_succeeded ''http://localhost:8102'' (worker_reply ''0'')"
    by code_simp
  have s1: "?call (JBool False) 1 = call_failed ''http://localhost:8101'' ''Timeout''"
    by code_simp
  have s2: "?call (JBool False) 2 = call_succeeded ''http://localhost:8102'' (worker_reply ''2'')"
    by code_simp
  have hp: "dict_get parallel_plan ''agents'' (JArray []) = Inr (JArray (map JString plan_names))"
    by (simp add: parallel_plan_def)
  have pp: "dict_get parallel_plan ''parallel'' (JBool False) = Inr (JBool True)"
    by (simp add: parallel_plan_def)
  from execute_plan_order [OF hp, of counting_env empty_world ?q]
  obtain results par where r:
    "fst (execute_plan counting_env empty_world ?q parallel_plan) = Inr results"
    "dict_get parallel_plan ''parallel'' (JBool False) = Inr par"
    "length results = length (filter (\<lambda>n. map_of (agent_map counting_env) n \<noteq> None) plan_names)"
    "\<forall>i<length results. results ! i = ?call par i"
    by blast
  from r(2) pp have par: "par = JBool True" by simp
  from r(3) known have len: "length results = 3" by simp
  from r(4) len have "results ! 0 = call_succeeded ''http://localhost:8102'' (worker_reply ''1'')"
    unfolding par p0 [symmetric] by simp
  moreover from r(4) len have "results ! 1 = call_failed ''http://localhost:8101'' ''Timeout''"
    unfolding par p1 [symmetric] by simp
  moreover from r(4) len have "results ! 2 = call_succeeded ''http://localhost:8102'' (worker_reply ''0'')"
    unfolding par p2 [symmetric] by simp
  ultimately have "results = [call_succeeded ''http://localhost:8102'' (worker_reply ''1''),
            call_failed ''http://localhost:8101'' ''Timeout'',
            call_succeeded ''http://localhost:8102'' (worker_reply ''0'')]"
    using list_of_three [OF len] by simp
  with r(1) have parallel:
    "fst (execute_plan counting_env empty_world ?q parallel_plan)
       = Inr [call_succeeded ''http://localhost:8102'' (worker_reply ''1''),
              call_failed ''http://localhost:8101'' ''Timeout'',
              call_succeeded ''http://localhost:8102'' (worker_reply ''0'')]"
    by simp
  have hs: "dict_get sequential_plan ''agents'' (JArray []) = Inr (JArray (map JString plan_names))"
    by (simp add: sequential_plan_def)
  have ps: "dict_get sequential_plan ''parallel'' (JBool False) = Inr (JBool False)"
    by (simp add: sequential_plan_def)
  from execute_plan_order [OF hs, of counting_env empty_world ?q]
  obtain results' par' where r':
    "fst (execute_plan counting_env empty_world ?q sequential_plan) = Inr results'"
    "dict_get sequential_plan ''parallel'' (JBool False) = Inr par'"
    "length results' = length (filter (\<lambda>n. map_of (agent_map counting_env) n \<noteq> None) plan_names)"
    "\<forall>i<length results'. results' ! i = ?call par' i"
    by blast
  from r'(2) ps have par': "par' = JBool False" by simp
  from r'(3) known have len': "length results' = 3" by simp
  from r'(4) len' have "results' ! 0 = call_succeeded ''http://localhost:8102'' (worker_reply ''0'')"
    unfolding par' s0 [symmetric] by simp
  moreover from r'(4) len' have "results' ! 1 = call_failed ''http://localhost:8101'' ''Timeout''"
    unfolding par' s1 [symmetric] by simp
  moreover from r'(4) len' have "results' ! 2 = call_succeeded ''http://localhost:8102'' (worker_reply ''2'')"
    unfolding par' s2 [symmetric] by simp
  ultimately have "results' = [call_succeeded ''http://localhost:8102'' (worker_reply ''0''),
            call_failed ''http://localhost:8101'' ''Timeout'',
            call_succeeded ''http://localhost:8102'' (worker_reply ''2'')]"
    using list_of_three [OF len'] by simp
  with r'(1) have sequential:
    "fst (execute_plan counting_env empty_world ?q sequential_plan)
       = Inr [call_succeeded ''http://localhost:8102'' (worker_reply ''0''),
              call_failed ''http://localhost:8101'' ''Timeout'',
              call_succeeded ''http://localhost:8102'' (worker_reply ''2'')]"
    by simp
  from parallel sequential show ?thesis by (rule conjI)
qed

lemma call_worker_except_fields:
  "success (call_worker_except url err) = False"
  "error (call_worker_except url err)
     = Some (case err of TimeoutError \<Rightarrow> ''Timeout'' | PyError m \<Rightarrow> m)"
  by (cases err; simp add: call_failed_def)+

text \<open>
  Claim C4. \<^verbatim>\<open>_call_worker\<close> returns a result and never raises. The result has
  \<^verbatim>\<open>success\<close> true exactly when the worker answered with status 200 and its body could
  be decoded; otherwise it has \<^verbatim>\<open>success\<close> false and an error text: \<^verbatim>\<open>Timeout\<close>, the
  exception's text, or \<^verbatim>\<open>HTTP\<close> and the status. Each call makes exactly one request.
  The dispatcher makes one request for every known name of the plan whatever the workers
  answer: in sequential mode in plan order, in parallel mode in the order of completion.
\<close>

theorem call_worker_isolated:
  "success (fst (call_worker e w url query))
     = (\<exists>body. http_reply e (http_calls w) (url @ ''/task'') (task_payload query)
                 = HttpResponse 200 (Inr body)) \<and>
   (error (fst (call_worker e w url query)) = None) = success (fst (call_worker e w url query)) \<and>
   error (fst (call_worker e w url query))
     = (case http_reply e (http_calls w) (url @ ''/task'') (task_payload query) of
          HttpRaises TimeoutError \<Rightarrow> Some ''Timeout''
        | HttpRaises (PyError m) \<Rightarrow> Some m
        | HttpResponse code body \<Rightarrow>
            if code = 200 then
              (case body of
                 Inr v \<Rightarrow> None
               | Inl TimeoutError \<Rightarrow> Some ''Timeout''
               | Inl (PyError m) \<Rightarrow> Some m)
            else Some (''HTTP '' @ str_nat code)) \<and>
   http_calls (snd (call_worker e w url query))
     = http_calls w @ [(url @ ''/task'', task_payload query)] \<and>
   (\<forall>names par.
      dict_get plan ''agents'' (JArray []) = Inr (JArray (map JString names)) \<and>
      dict_get plan ''parallel'' (JBool False) = Inr par \<longrightarrow>
      http_calls (snd (execute_plan e w query plan))
        = http_calls w @
          map (\<lambda>i. (List.map_filter (map_of (agent_map e)) names ! i @ ''/task'', task_payload query))
            (if py_truthy par
             then task_order (completion_order e)
                    (length (List.map_filter (map_of (agent_map e)) names))
             else [0..<length (List.map_filter (map_of (agent_map e)) names)])) \<and>
   (\<forall>n. distinct (task_order (completion_order e) n) \<and>
        set (task_order (completion_order e) n) = {0..<n})"
proof (intro conjI allI impI)
  show "success (fst (call_worker e w url query))
     = (\<exists>body. http_reply e (http_calls w) (url @ ''/task'') (task_payload query)
                 = HttpResponse 200 (Inr body))"
    by (auto simp: call_worker_def session_post_def call_succeeded_def call_failed_def
        call_worker_except_fields split: http_outcome.splits sum.splits exn.splits)
  show "(error (fst (call_worker e w url query)) = None) = success (fst (call_worker e w url query))"
    by (auto simp: call_worker_def session_post_def call_succeeded_def call_failed_def
        call_worker_except_fields split: http_outcome.splits sum.splits exn.splits)
  show "error (fst (call_worker e w url query))
     = (case http_reply e (http_calls w) (url @ ''/task'') (task_payload query) of
          HttpRaises TimeoutError \<Rightarrow> Some ''Timeout''
        | HttpRaises (PyError m) \<Rightarrow> Some m
        | HttpResponse code body \<Rightarrow>
            if code = 200 then
              (case body of
                 Inr v \<Rightarrow> None
               | Inl TimeoutError \<Rightarrow> Some ''Timeout''
               | Inl (PyError m) \<Rightarrow> Some m)
            else Some (''HTTP '' @ str_nat code))"
    by (auto simp: call_worker_def session_post_def call_succeeded_def call_failed_def
        call_worker_except_fields split: http_outcome.splits sum.splits exn.splits)
  show "http_calls (snd (call_worker e w url query))
     = http_calls w @ [(url @ ''/task'', task_payload query)]"
    by (rule call_worker_http_calls)
next
  fix names par
  assume h: "dict_get plan ''agents'' (JArray []) = Inr (JArray (map JString names)) \<and>
      dict_get plan ''parallel'' (JBool False) = Inr par"
  then have a: "dict_get plan ''agents'' (JArray []) = Inr (JArray (map JString names))"
    and p: "dict_get plan ''parallel'' (JBool False) = Inr par"
    by simp_all
  from execute_plan_wellformed [OF a p, of e w query]
  show "http_calls (snd (execute_plan e w query plan))
        = http_calls w @
          map (\<lambda>i. (List.map_filter (map_of (agent_map e)) names ! i @ ''/task'', task_payload query))
            (if py_truthy par
             then task_order (completion_order e)
                    (length (List.map_filter (map_of (agent_map e)) names))
             else [0..<length (List.map_filter (map_of (agent_map e)) names)])"
    by auto
next
  fix n
  show "distinct (task_order (completion_order e) n)" by (rule task_order_distinct)
  show "set (task_order (completion_order e) n) = {0..<n}" by (rule task_order_set)
qed

theorem call_worker_isolated_witness:
  "http_calls (snd (execute_plan dispatch_env empty_world (JString ''q'') parallel_plan))
     = [(''http://localhost:8102/task'', task_payload (JString ''q'')),
        (''http://localhost:8102/task'', task_payload (JString ''q'')),
        (''http://localhost:8101/task'', task_payload (JString ''q''))] \<and>
   http_calls (snd (execute_plan dispatch_env empty_world (JString ''q'') sequential_plan))
     = [(''http://localhost:8102/task'', task_payload (JString ''q'')),
        (''http://localhost:8101/task'', task_payload (JString ''q'')),
        (''http://localhost:8102/task'', task_payload (JString ''q''))] \<and>
   error (fst (call_worker dispatch_env empty_world ''http://localhost:8101'' (JString ''q'')))
     = Some ''Timeout''"
proof -
  let ?urls = "List.map_filter (map_of (agent_map dispatch_env)) plan_names"
  let ?call = "\<lambda>i. (?urls ! i @ ''/task'', task_payload (JString ''q''))"
  note inst = call_worker_isolated
               [of dispatch_env empty_world "''http://localhost:8101''" "JString ''q''"]
  have hp: "dict_get parallel_plan ''agents'' (JArray []) = Inr (JArray (map JString plan_names)) \<and>
            dict_get parallel_plan ''parallel'' (JBool False) = Inr (JBool True)"
    by (simp add: parallel_plan_def)
  have hs: "dict_get sequential_plan ''agents'' (JArray []) = Inr (JArray (map JString plan_names)) \<and>
            dict_get sequential_plan ''parallel'' (JBool False) = Inr (JBool False)"
    by (simp add: sequential_plan_def)
  have cp: "http_calls empty_world @
              map ?call (if py_truthy (JBool True)
                         then task_order (completion_order dispatch_env) (length ?urls)
                         else [0..<length ?urls])
            = [(''http://localhost:8102/task'', task_payload (JString ''q'')),
               (''http://localhost:8102/task'', task_payload (JString ''q'')),
               (''http://localhost:8101/task'', task_payload (JString ''q''))]"
    by code_simp
  have cs: "http_calls empty_world @
              map ?call (if py_truthy (JBool False)
                         then task_order (completion_order dispatch_env) (length ?urls)
                         else [0..<length ?urls])
            = [(''http://localhost:8102/task'', task_payload (JString ''q'')),
               (''http://localhost:8101/task'', task_payload (JString ''q'')),
               (''http://localhost:8102/task'', task_payload (JString ''q''))]"
    by code_simp
  have reply: "http_reply dispatch_env (http_calls empty_world) (''http://localhost:8101'' @ ''/task'')
                 (task_payload (JString ''q'')) = HttpRaises TimeoutError"
    by code_simp
  from inst [of parallel_plan] hp
  have 1: "http_calls (snd (execute_plan dispatch_env empty_world (JString ''q'') parallel_plan))
             = http_calls empty_world @
               map ?call (if py_truthy (JBool True)
                          then task_order (completion_order dispatch_env) (length ?urls)
                          else [0..<length ?urls])"
    by blast
  from inst [of sequential_plan] hs
  have 2: "http_calls (snd (execute_plan dispatch_env empty_world (JString ''q'') sequential_plan))
             = http_calls empty_world @
               map ?call (if py_truthy (JBool False)
                          then task_order (completion_order dispatch_env) (length ?urls)
                          else [0..<length ?urls])"
    by blast
  from inst [of parallel_plan]
  have 3: "error (fst (call_worker dispatch_env empty_world ''http://localhost:8101'' (JString ''q'')))
             = Some ''Timeout''"
    unfolding reply by simp
  from 1 2 3 show ?thesis unfolding cp cs by simp
qed

end
